theory Spec2Isabelle
  imports Main "HOL-Library.Sublist"
begin

section \<open>JavaScript values\<close>

text \<open>
  The values that reach the truthiness tests of the source (\<^verbatim>\<open>!incrementalFile\<close>,
  \<^verbatim>\<open>content || content === ""\<close>). \<open>JObj\<close> stands for any object, array, function or
  Buffer (always truthy); \<open>JNaN\<close> is the one number besides zero that is falsy.
\<close>

datatype jsval = JUndefined | JNull | JBool bool | JNum int | JNaN | JStr string | JObj

fun truthy :: "jsval \<Rightarrow> bool" where
  "truthy JUndefined = False"
| "truthy JNull = False"
| "truthy (JBool b) = b"
| "truthy (JNum n) = (n \<noteq> 0)"
| "truthy JNaN = False"
| "truthy (JStr s) = (s \<noteq> [])"
| "truthy JObj = True"

text \<open>An optional boolean property (\<^verbatim>\<open>metadata.isFullTemplate\<close>): absent is \<open>None\<close>.\<close>

fun truthy_opt :: "bool option \<Rightarrow> bool" where
  "truthy_opt None = False"
| "truthy_opt (Some b) = b"

section \<open>Errors\<close>

text \<open>
  Every \<^verbatim>\<open>throw\<close> and rejected promise of the source is a value of this type. The
  wrapping errors carry their message and the original error.
\<close>

datatype error =
    Error string
  | PrematureTemplateContentError
  | TemplateContentFrontMatterError string error
  | TemplateContentCompileError string error
  | EleventyTemplateError string error

section \<open>The engine collaborator\<close>

text \<open>
  The \<^verbatim>\<open>this\<close> object handed to an extension entry's \<^verbatim>\<open>isIncrementalMatch\<close> callback
  (TemplateContent.isFileRelevantToThisTemplate).
\<close>

record match_ctx =
  ctx_inputPath :: string
  ctx_isFullTemplate :: "bool option"
  ctx_isFileRelevantToInputPath :: bool
  ctx_doesFileHaveDependencies :: bool

record extension_entry =
  isIncrementalMatch :: "(match_ctx \<Rightarrow> jsval \<Rightarrow> bool) option"

text \<open>
  The template engine sits behind an interface (the engines themselves are outside
  this development): each query is a field of the record.
  \<open>getCompileCacheKey str inputPath\<close> returns the pair \<open>(useCache, key)\<close>.
\<close>

record engine =
  hasDependencies :: "jsval \<Rightarrow> bool"
  isFileRelevantTo :: "string \<Rightarrow> jsval \<Rightarrow> bool"
  extensionEntries :: "extension_entry list"
  cacheable :: bool
  getCompileCacheKey :: "string \<Rightarrow> string \<Rightarrow> bool \<times> string"
  needsCompilation :: "string \<Rightarrow> bool"
  needsToReadFileContents :: bool

section \<open>TemplateContent\<close>

datatype renderable = Unset | Optional | Disabled

record frontmatter =
  fm_data :: "(string \<times> string) list"
  fm_content :: string
  fm_excerpt :: string

text \<open>
  The property \<^verbatim>\<open>inputContent\<close>: absent, the promise that \<^verbatim>\<open>getInputContent()\<close> returned
  (held as what it settles to), or a plain value put there by \<^verbatim>\<open>setInputContent\<close>.
\<close>

datatype content_slot = NoContent | ContentPromise "error + jsval" | ContentValue jsval

text \<open>
  The instance state of a template. \<open>templateRender\<close> is \<^verbatim>\<open>this._templateRender\<close>, here
  identified with its engine; \<open>None\<close> before \<^verbatim>\<open>getTemplateRender()\<close> has run.
  \<open>readingPromise\<close> and \<open>frontMatterDataCache\<close> are the cached promises of
  TemplateContent, each held as the value it settles to (\<open>None\<close> when the property is
  absent); \<open>frontMatterField\<close> is the property \<^verbatim>\<open>_frontMatter\<close>. \<open>dataCache\<close> and
  \<open>renderCache\<close> are the caches of the Template subclass.
\<close>

record tmpl =
  inputPath :: string
  templateRender :: "engine option"
  renderableOverride :: renderable
  dryRunViaIncremental :: bool
  inputContent :: content_slot
  readingPromise :: "(error + frontmatter) option"
  frontMatterField :: "frontmatter option"
  frontMatterDataCache :: "(string \<times> string) list option"
  dataCache :: "(string \<times> string) list option"
  renderCache :: "string option"

text \<open>The \<^verbatim>\<open>engine\<close> getter: it throws while the template render is not initialised.\<close>

definition get_engine :: "tmpl \<Rightarrow> error + engine" where
  "get_engine t =
     (case templateRender t of
        None \<Rightarrow> Inl (Error (''`templateRender` has not yet initialized on '' @ inputPath t))
      | Some e \<Rightarrow> Inr e)"

record metadata =
  isFullTemplate :: "bool option"

definition incremental_ctx :: "tmpl \<Rightarrow> metadata \<Rightarrow> bool \<Rightarrow> bool \<Rightarrow> match_ctx" where
  "incremental_ctx t md isRelevant hasDeps =
     \<lparr> ctx_inputPath = inputPath t,
       ctx_isFullTemplate = isFullTemplate md,
       ctx_isFileRelevantToInputPath = isRelevant,
       ctx_doesFileHaveDependencies = hasDeps \<rparr>"

definition entry_matches :: "match_ctx \<Rightarrow> jsval \<Rightarrow> extension_entry \<Rightarrow> bool" where
  "entry_matches ctx incrementalFile entry =
     (case isIncrementalMatch entry of None \<Rightarrow> False | Some f \<Rightarrow> f ctx incrementalFile)"

definition isFileRelevantToThisTemplate :: "tmpl \<Rightarrow> jsval \<Rightarrow> metadata \<Rightarrow> error + bool" where
  "isFileRelevantToThisTemplate t incrementalFile md =
     (if \<not> truthy incrementalFile then Inr True
      else case get_engine t of
        Inl e \<Rightarrow> Inl e
      | Inr eng \<Rightarrow>
          (let hasDeps = hasDependencies eng incrementalFile;
               isRelevant = isFileRelevantTo eng (inputPath t) incrementalFile;
               entries = filter (\<lambda>entry. isIncrementalMatch entry \<noteq> None) (extensionEntries eng)
           in if entries \<noteq> [] then
                Inr (list_ex (entry_matches (incremental_ctx t md isRelevant hasDeps) incrementalFile)
                       entries)
              else if isRelevant then Inr True
              else if \<not> hasDeps \<and> \<not> truthy_opt (isFullTemplate md) then Inr True
              else Inr False))"

section \<open>Resetting a template's caches\<close>

text \<open>
  The argument of \<^verbatim>\<open>resetCaches(types)\<close>: an object that names some of the kinds, or
  nothing at all (\<open>None\<close>). A kind that the object does not name is \<open>None\<close>.
\<close>

record reset_arg =
  arg_data :: "bool option"
  arg_read :: "bool option"
  arg_render :: "bool option"

record reset_types =
  rt_data :: bool
  rt_read :: bool
  rt_render :: bool

definition getResetTypes :: "reset_arg option \<Rightarrow> reset_types" where
  "getResetTypes types =
     (case types of
        Some a \<Rightarrow>
          \<lparr> rt_data = (case arg_data a of None \<Rightarrow> False | Some b \<Rightarrow> b),
            rt_read = (case arg_read a of None \<Rightarrow> False | Some b \<Rightarrow> b),
            rt_render = (case arg_render a of None \<Rightarrow> False | Some b \<Rightarrow> b) \<rparr>
      | None \<Rightarrow> \<lparr> rt_data = True, rt_read = True, rt_render = True \<rparr>)"

text \<open>
  TemplateContent.resetCaches. \<^verbatim>\<open>delete this.frontMatter\<close> names an accessor of the
  class, not a property of the instance, so \<^verbatim>\<open>_frontMatter\<close> stays as it is.
\<close>

definition resetCaches :: "reset_arg option \<Rightarrow> tmpl \<Rightarrow> tmpl" where
  "resetCaches types t =
     (if rt_read (getResetTypes types)
      then t\<lparr> readingPromise := None, inputContent := NoContent, frontMatterDataCache := None \<rparr>
      else t)"

text \<open>
  Modelled from the spec: the override of \<^verbatim>\<open>resetCaches\<close> in the Template subclass
  (Template.js), which the writer calls. After the reset of TemplateContent, kind
  \<open>data\<close> clears the resolved data and kind \<open>render\<close> drops the cached render output.
\<close>

definition Template_resetCaches :: "reset_arg option \<Rightarrow> tmpl \<Rightarrow> tmpl" where
  "Template_resetCaches types t =
     (let ty = getResetTypes types;
          t1 = resetCaches types t;
          t2 = (if rt_data ty then t1\<lparr> dataCache := None \<rparr> else t1)
      in if rt_render ty then t2\<lparr> renderCache := None \<rparr> else t2)"

text \<open>
  Modelled from the spec: the accessors of the three-valued renderable override and of
  the dry-run flag of the Template subclass (Template.js): \<open>Unset\<close> is \<^verbatim>\<open>undefined\<close>
  (render), \<open>Optional\<close> is \<^verbatim>\<open>"optional"\<close>, \<open>Disabled\<close> is \<^verbatim>\<open>false\<close> (skip).
\<close>

definition setRenderableOverride :: "renderable \<Rightarrow> tmpl \<Rightarrow> tmpl" where
  "setRenderableOverride v t = t\<lparr> renderableOverride := v \<rparr>"

definition isRenderableDisabled :: "tmpl \<Rightarrow> bool" where
  "isRenderableDisabled t = (renderableOverride t = Disabled)"

definition isRenderableOptional :: "tmpl \<Rightarrow> bool" where
  "isRenderableOptional t = (renderableOverride t = Optional)"

definition setDryRunViaIncremental :: "bool \<Rightarrow> tmpl \<Rightarrow> tmpl" where
  "setDryRunViaIncremental b t = t\<lparr> dryRunViaIncremental := b \<rparr>"

section \<open>TemplateWriter: the incremental build\<close>

text \<open>
  \<^verbatim>\<open>incrementalFileShape\<close>: \<^verbatim>\<open>"template"\<close>, \<^verbatim>\<open>"copy"\<close> or \<^verbatim>\<open>undefined\<close> (an include,
  a layout, or a file of unknown kind).
\<close>

datatype file_shape = ShapeTemplate | ShapeCopy | ShapeUndefined

text \<open>
  EleventyFiles.isFullTemplateFile and getFileShape. Whether a file is a passthrough
  copy is the passthrough manager's answer, taken as an argument.
\<close>

definition isFullTemplateFile :: "string list \<Rightarrow> jsval \<Rightarrow> bool" where
  "isFullTemplateFile paths filePath =
     (if \<not> truthy filePath then False else list_ex (\<lambda>path. JStr path = filePath) paths)"

definition getFileShape :: "bool \<Rightarrow> string list \<Rightarrow> jsval \<Rightarrow> file_shape" where
  "getFileShape isPassthroughCopyFile paths filePath =
     (if \<not> truthy filePath then ShapeUndefined
      else if isPassthroughCopyFile then ShapeCopy
      else if isFullTemplateFile paths filePath then ShapeTemplate
      else ShapeUndefined)"

text \<open>
  TemplateWriter.getFileShape: every file is a template when the writer has no
  EleventyFiles (\<open>None\<close>); otherwise EleventyFiles answers, with what the passthrough
  manager says of the file.
\<close>

definition writerFileShape :: "bool option \<Rightarrow> string list \<Rightarrow> jsval \<Rightarrow> file_shape" where
  "writerFileShape eleventyFiles paths filePath =
     (case eleventyFiles of
        None \<Rightarrow> ShapeTemplate
      | Some isPassthroughCopyFile \<Rightarrow> getFileShape isPassthroughCopyFile paths filePath)"

text \<open>
  The global uses graph (\<^verbatim>\<open>this.config.uses\<close>, GlobalDependencyMap.js) is consulted
  through two queries; they answer for the graph as it is after \<^verbatim>\<open>resetNode\<close> and
  \<^verbatim>\<open>addAllToGlobalDependencyGraph\<close> have run.
\<close>

record uses_graph =
  isFileUsedBy :: "jsval \<Rightarrow> string \<Rightarrow> bool"
  getTemplatesRelevantToTemplateList :: "string list \<Rightarrow> string list"

record writer =
  incrementalFile :: jsval
  isRunInitialBuild :: bool
  skippedCount :: nat
  config_uses :: uses_graph

text \<open>
  Template objects are shared: the array \<^verbatim>\<open>templates\<close> holds references, and the same
  object is reached again through \<^verbatim>\<open>_templatePathCache\<close>. A reference is an address and
  the heap maps each address to the object's state.
\<close>

type_synonym ref = nat
type_synonym heap = "ref \<Rightarrow> tmpl"

text \<open>
  \<^verbatim>\<open>secondOrderRelevantLookup[key] = true\<close> on a plain object: a key that is new goes
  after the others, a key that is there already keeps its place. \<^verbatim>\<open>Object.keys\<close> then
  lists the keys in that order. The keys are input paths of templates: none of them is
  an array index or the name of a property of \<^verbatim>\<open>Object.prototype\<close>, for which a plain
  object behaves otherwise.
\<close>

definition object_set :: "string list \<Rightarrow> string \<Rightarrow> string list" where
  "object_set keys k = (if k \<in> set keys then keys else keys @ [k])"

definition isIncrementalTemplate :: "writer \<Rightarrow> file_shape \<Rightarrow> tmpl \<Rightarrow> bool" where
  "isIncrementalTemplate w shape t =
     (shape = ShapeTemplate \<and> JStr (inputPath t) = incrementalFile w)"

text \<open>
  The body of the classification loop (lines 264 to 283): the template with its
  override set, and whether its input path was recorded in
  \<^verbatim>\<open>secondOrderRelevantLookup\<close>.
\<close>

definition classifyTemplate :: "writer \<Rightarrow> file_shape \<Rightarrow> tmpl \<Rightarrow> error + tmpl \<times> bool" where
  "classifyTemplate w shape t =
     (if isIncrementalTemplate w shape t then Inr (setRenderableOverride Unset t, False)
      else case isFileRelevantToThisTemplate t (incrementalFile w)
                  \<lparr> isFullTemplate = Some (shape = ShapeTemplate) \<rparr> of
        Inl e \<Rightarrow> Inl e
      | Inr relevant \<Rightarrow>
          if relevant then Inr (setRenderableOverride Unset t, True)
          else if isFileUsedBy (config_uses w) (incrementalFile w) (inputPath t)
          then Inr (setRenderableOverride Optional t, False)
          else Inr (setRenderableOverride Disabled t, False))"

fun classifyTemplates ::
  "writer \<Rightarrow> file_shape \<Rightarrow> ref list \<Rightarrow> heap \<times> string list \<Rightarrow> error + heap \<times> string list" where
  "classifyTemplates w shape [] st = Inr st"
| "classifyTemplates w shape (r # rs) (h, lookup) =
     (case classifyTemplate w shape (h r) of
        Inl e \<Rightarrow> Inl e
      | Inr (t, firstOrder) \<Rightarrow>
          classifyTemplates w shape rs
            (h(r := t), if firstOrder then object_set lookup (inputPath t) else lookup))"

text \<open>
  Lines 285 to 290. \<^verbatim>\<open>TemplatePath.addLeadingDotSlash\<close> belongs to a package outside
  the repository and is an argument. \<^verbatim>\<open>secondOrderTemplates\<close> is an object whose keys
  are the entries of the array; looking the input path of a template up in it is
  membership in the array.
\<close>

definition secondOrderRelevantArray ::
  "(string \<Rightarrow> string) \<Rightarrow> writer \<Rightarrow> string list \<Rightarrow> string list" where
  "secondOrderRelevantArray addLeadingDotSlash w lookup =
     map addLeadingDotSlash (getTemplatesRelevantToTemplateList (config_uses w) lookup)"

text \<open>The body of the second-order loop (lines 292 to 299).\<close>

definition upgradeTemplate :: "string list \<Rightarrow> tmpl \<Rightarrow> tmpl" where
  "upgradeTemplate secondOrderTemplates t =
     (if inputPath t \<in> set secondOrderTemplates
      then (if isRenderableDisabled t then setRenderableOverride Optional t else t)
      else t)"

fun upgradeTemplates :: "string list \<Rightarrow> ref list \<Rightarrow> heap \<Rightarrow> heap" where
  "upgradeTemplates secondOrderTemplates [] h = h"
| "upgradeTemplates secondOrderTemplates (r # rs) h =
     upgradeTemplates secondOrderTemplates rs (h(r := upgradeTemplate secondOrderTemplates (h r)))"

text \<open>
  The body of the last loop (lines 302 to 325): the template after its caches are
  reset, and whether \<^verbatim>\<open>skippedCount\<close> goes up.
\<close>

definition resetTemplate :: "writer \<Rightarrow> file_shape \<Rightarrow> tmpl \<Rightarrow> tmpl \<times> bool" where
  "resetTemplate w shape t =
     (if isIncrementalTemplate w shape t then (setDryRunViaIncremental False t, False)
      else if \<not> isRenderableDisabled t \<and> \<not> isRenderableOptional t then
        (setDryRunViaIncremental False
           (Template_resetCaches
              (Some \<lparr> arg_data = Some True, arg_read = None, arg_render = Some True \<rparr>) t),
         False)
      else
        (setDryRunViaIncremental True
           (Template_resetCaches
              (Some \<lparr> arg_data = Some True, arg_read = None, arg_render = None \<rparr>) t),
         True))"

fun resetTemplates :: "writer \<Rightarrow> file_shape \<Rightarrow> ref list \<Rightarrow> heap \<times> nat \<Rightarrow> heap \<times> nat" where
  "resetTemplates w shape [] st = st"
| "resetTemplates w shape (r # rs) (h, skipped) =
     (case resetTemplate w shape (h r) of
        (t, skip) \<Rightarrow> resetTemplates w shape rs (h(r := t), if skip then skipped + 1 else skipped))"

text \<open>The loop under \<^verbatim>\<open>if (ignoreInitialBuild)\<close> (lines 257 to 262).\<close>

fun disableTemplates :: "ref list \<Rightarrow> heap \<Rightarrow> heap" where
  "disableTemplates [] h = h"
| "disableTemplates (r # rs) h = disableTemplates rs (h(r := setRenderableOverride Disabled (h r)))"

text \<open>
  \<^verbatim>\<open>_addToTemplateMapIncrementalBuild\<close> from line 249 on, that is after
  \<^verbatim>\<open>await Promise.all(promises)\<close>. The loop before it creates the template objects,
  initialises each of them (\<^verbatim>\<open>asyncTemplateInitialization\<close>, which the relevance test
  needs) and has their data generated, through Template.js and TemplateMap.js;
  \<open>templates\<close> is the array that loop has filled and \<open>h\<close> holds the objects as it left
  them.
\<close>

definition finishIncrementalBuild :: "writer \<Rightarrow> heap \<times> nat \<Rightarrow> writer \<times> heap" where
  "finishIncrementalBuild w st = (w\<lparr> skippedCount := snd st \<rparr>, fst st)"

definition addToTemplateMapIncrementalBuild ::
  "(string \<Rightarrow> string) \<Rightarrow> file_shape \<Rightarrow> ref list \<Rightarrow> writer \<Rightarrow> heap \<Rightarrow> error + writer \<times> heap" where
  "addToTemplateMapIncrementalBuild addLeadingDotSlash shape templates w h =
     (if \<not> isRunInitialBuild w then Inr (w, disableTemplates templates h)
      else
        (case classifyTemplates w shape templates (h, []) of
           Inl e \<Rightarrow> Inl e
         | Inr (h1, lookup) \<Rightarrow>
             (let secondOrderTemplates = secondOrderRelevantArray addLeadingDotSlash w lookup;
                  h2 = upgradeTemplates secondOrderTemplates templates h1
              in Inr (finishIncrementalBuild w
                        (resetTemplates w shape templates (h2, skippedCount w))))))"

section \<open>The classification as the specification words it\<close>

text \<open>
  The case analysis of the scheduler, written as one function of the template: the
  changed file itself and a template the changed file is relevant to are rendered, a
  template the changed file uses is optional, every other one is skipped.
\<close>

definition relevantTo :: "writer \<Rightarrow> file_shape \<Rightarrow> tmpl \<Rightarrow> bool" where
  "relevantTo w shape t =
     (isFileRelevantToThisTemplate t (incrementalFile w)
        \<lparr> isFullTemplate = Some (shape = ShapeTemplate) \<rparr> = Inr True)"

definition classification :: "writer \<Rightarrow> file_shape \<Rightarrow> tmpl \<Rightarrow> renderable" where
  "classification w shape t =
     (if isIncrementalTemplate w shape t then Unset
      else if relevantTo w shape t then Unset
      else if isFileUsedBy (config_uses w) (incrementalFile w) (inputPath t) then Optional
      else Disabled)"

definition firstOrderRelevant :: "writer \<Rightarrow> file_shape \<Rightarrow> tmpl \<Rightarrow> bool" where
  "firstOrderRelevant w shape t = (\<not> isIncrementalTemplate w shape t \<and> relevantTo w shape t)"

text \<open>How many of the templates of the array are in a given state.\<close>

definition countInState :: "renderable \<Rightarrow> ref list \<Rightarrow> heap \<Rightarrow> nat" where
  "countInState s templates h = length (filter (\<lambda>r. renderableOverride (h r) = s) templates)"

section \<open>TemplateContent: reading the input\<close>

text \<open>
  What lies outside the repository, or in a file of it that is not modelled, is an
  argument:
  the front-matter parser (\<^verbatim>\<open>matter\<close>, of the gray-matter package), \<^verbatim>\<open>os.EOL\<close>,
  \<^verbatim>\<open>String.prototype.trim\<close>, lodash's \<^verbatim>\<open>set\<close>, \<^verbatim>\<open>fs.readFile\<close>,
  \<^verbatim>\<open>TemplatePath.absolutePath\<close>, the construction of a TemplateRender and its
  \<^verbatim>\<open>setEngineOverride\<close> (which can fail), and the configuration
  (\<^verbatim>\<open>frontMatterParsingOptions\<close>, \<^verbatim>\<open>useTemplateCache\<close>, the virtual templates by input
  path, and the unique id of the user configuration instance, as the string that
  \<^verbatim>\<open>+\<close> puts in front of the engine's key).
\<close>

record fm_options =
  opt_excerpt :: bool
  opt_excerpt_separator :: "string option"
  opt_excerpt_alias :: "string option"

record virtual_template =
  vt_content :: jsval
  vt_data :: "(string \<times> string) list"

record content_env =
  matter :: "jsval \<Rightarrow> fm_options \<Rightarrow> error + frontmatter"
  os_EOL :: string
  trim :: "string \<Rightarrow> string"
  lodashSet :: "(string \<times> string) list \<Rightarrow> string \<Rightarrow> string \<Rightarrow> (string \<times> string) list"
  readFile :: "string \<Rightarrow> error + string"
  absolutePath :: "string \<Rightarrow> string"
  newTemplateRender :: "string \<Rightarrow> error + engine"
  setEngineOverride :: "engine \<Rightarrow> string \<Rightarrow> bool \<Rightarrow> error + engine"
  uniqueId :: string
  frontMatterParsingOptions :: "fm_options option"
  useTemplateCache :: bool
  virtualTemplates :: "string \<Rightarrow> virtual_template option"

text \<open>
  The state shared by all templates: the static \<^verbatim>\<open>_inputCache\<close>, and the trace of the
  calls made to the front-matter parser (the content each call was given).
\<close>

record content_state =
  inputCache :: "string \<rightharpoonup> jsval"
  matterCalls :: "jsval list"

text \<open>\<^verbatim>\<open>a || b\<close> on an optional string: the default stands in for undefined and for "".\<close>

definition or_default :: "string option \<Rightarrow> string \<Rightarrow> string" where
  "or_default a b = (case a of None \<Rightarrow> b | Some s \<Rightarrow> if s = [] then b else s)"

definition getTemplateRender :: "content_env \<Rightarrow> tmpl \<Rightarrow> error + engine \<times> tmpl" where
  "getTemplateRender env t =
     (case templateRender t of
        Some eng \<Rightarrow> Inr (eng, t)
      | None \<Rightarrow>
          (case newTemplateRender env (inputPath t) of
             Inl e \<Rightarrow> Inl e
           | Inr eng \<Rightarrow> Inr (eng, t\<lparr> templateRender := Some eng \<rparr>)))"

definition getCached :: "content_env \<Rightarrow> content_state \<Rightarrow> string \<Rightarrow> jsval" where
  "getCached env st path =
     (case inputCache st (absolutePath env path) of None \<Rightarrow> JUndefined | Some v \<Rightarrow> v)"

definition cache :: "content_env \<Rightarrow> string \<Rightarrow> jsval \<Rightarrow> content_state \<Rightarrow> content_state" where
  "cache env path content st =
     st\<lparr> inputCache := (inputCache st)(absolutePath env path \<mapsto> content) \<rparr>"

definition getInputContent ::
  "content_env \<Rightarrow> tmpl \<Rightarrow> content_state \<Rightarrow> (error + jsval) \<times> tmpl \<times> content_state" where
  "getInputContent env t st =
     (case getTemplateRender env t of
        Inl e \<Rightarrow> (Inl e, t, st)
      | Inr (eng, t1) \<Rightarrow>
          if \<not> needsToReadFileContents eng then (Inr (JStr []), t1, st)
          else
            (case virtualTemplates env (inputPath t1) of
               Some virtualTemplateDefinition \<Rightarrow>
                 (Inr (vt_content virtualTemplateDefinition), t1, st)
             | None \<Rightarrow>
                 (let content =
                        (if useTemplateCache env then getCached env st (inputPath t1)
                         else JUndefined)
                  in if \<not> truthy content \<and> content \<noteq> JStr [] then
                       (case readFile env (inputPath t1) of
                          Inl e \<Rightarrow> (Inl e, t1, st)
                        | Inr str \<Rightarrow>
                            (Inr (JStr str), t1,
                             if useTemplateCache env then cache env (inputPath t1) (JStr str) st
                             else st))
                     else (Inr content, t1, st))))"

text \<open>
  The excerpt handling of \<^verbatim>\<open>read()\<close> (lines 231 to 250). \<^verbatim>\<open>(excerptString + 1).length\<close>
  is the length of the string with one character appended.
\<close>

definition applyExcerpt :: "content_env \<Rightarrow> fm_options \<Rightarrow> frontmatter \<Rightarrow> frontmatter" where
  "applyExcerpt env options fm =
     (if opt_excerpt options \<and> fm_excerpt fm \<noteq> [] then
        (let excerptString = fm_excerpt fm @ or_default (opt_excerpt_separator options) ''---'';
             content =
               (if prefix (excerptString @ os_EOL env) (fm_content fm) then
                  trim env (fm_excerpt fm) @ [CHR 0x0A] @
                    drop (length (excerptString @ os_EOL env)) (fm_content fm)
                else if prefix (excerptString @ [CHR 0x0A]) (fm_content fm) then
                  trim env (fm_excerpt fm) @ [CHR 0x0A] @
                    drop (length (excerptString @ ''1'')) (fm_content fm)
                else if prefix excerptString (fm_content fm) then
                  fm_excerpt fm @ drop (length excerptString) (fm_content fm)
                else fm_content fm);
             alias = or_default (opt_excerpt_alias options) ''page.excerpt''
         in fm\<lparr> fm_content := content,
                 fm_data := lodashSet env (fm_data fm) alias (fm_excerpt fm) \<rparr>)
      else fm)"

text \<open>
  \<^verbatim>\<open>if (!this.inputContent) this.inputContent = this.getInputContent()\<close> followed by
  \<^verbatim>\<open>await this.inputContent\<close>: what the content settles to.
\<close>

definition awaitInputContent ::
  "content_env \<Rightarrow> tmpl \<Rightarrow> content_state \<Rightarrow> (error + jsval) \<times> tmpl \<times> content_state" where
  "awaitInputContent env t st =
     (case inputContent t of
        ContentPromise p \<Rightarrow> (p, t, st)
      | ContentValue v \<Rightarrow>
          if truthy v then (Inr v, t, st)
          else (case getInputContent env t st of
                  (p, t1, st1) \<Rightarrow> (p, t1\<lparr> inputContent := ContentPromise p \<rparr>, st1))
      | NoContent \<Rightarrow>
          (case getInputContent env t st of
             (p, t1, st1) \<Rightarrow> (p, t1\<lparr> inputContent := ContentPromise p \<rparr>, st1)))"

definition emptyFrontMatter :: frontmatter where
  "emptyFrontMatter = \<lparr> fm_data = [], fm_content = [], fm_excerpt = [] \<rparr>"

text \<open>
  The body of the reading promise, from the settled content on. A failure of the
  parser is wrapped; a rejected content rejects the reading promise as it is. The
  parser also gets the input path (\<^verbatim>\<open>options.filePath\<close>); \<open>matter env\<close> stands for the
  parser of this template.
\<close>

definition parseContent ::
  "content_env \<Rightarrow> error + jsval \<Rightarrow> tmpl \<Rightarrow> content_state \<Rightarrow>
     (error + frontmatter) \<times> tmpl \<times> content_state" where
  "parseContent env settled t st =
     (case settled of
        Inl e \<Rightarrow> (Inl e, t, st)
      | Inr content \<Rightarrow>
          if truthy content \<or> content = JStr [] then
            (let options =
                   (case frontMatterParsingOptions env of
                      None \<Rightarrow> \<lparr> opt_excerpt = False, opt_excerpt_separator = None,
                                opt_excerpt_alias = None \<rparr>
                    | Some opts \<Rightarrow> opts);
                 st1 = st\<lparr> matterCalls := matterCalls st @ [content] \<rparr>
             in case matter env content options of
                  Inl e \<Rightarrow>
                    (Inl (TemplateContentFrontMatterError
                            (''Having trouble reading front matter from template '' @ inputPath t) e),
                     t, st1)
                | Inr parsed \<Rightarrow>
                    (let fm = applyExcerpt env options parsed
                     in (Inr fm, t\<lparr> frontMatterField := Some fm \<rparr>, st1)))
          else (Inr emptyFrontMatter, t, st))"

definition read ::
  "content_env \<Rightarrow> tmpl \<Rightarrow> content_state \<Rightarrow> (error + frontmatter) \<times> tmpl \<times> content_state" where
  "read env t st =
     (case readingPromise t of
        Some p \<Rightarrow> (p, t, st)
      | None \<Rightarrow>
          (case awaitInputContent env t st of
             (settled, t1, st1) \<Rightarrow>
               (case parseContent env settled t1 st1 of
                  (p, t2, st2) \<Rightarrow> (p, t2\<lparr> readingPromise := Some p \<rparr>, st2))))"

section \<open>TemplateContent: the compiled-template cache\<close>

text \<open>
  A compiled function is either the function that returns the string as it is (line
  401) or a function the engine made, known by its address. A promise is known by
  its address in the list of all promises made so far; the static \<^verbatim>\<open>_compileCache\<close> maps
  an input path to a map from keys to promises. The two benchmark counters of the
  cache are part of the state.
\<close>

datatype compiled = ReturnsString string | EngineFunction nat

datatype promise = Pending | Resolved compiled

record compile_state =
  compileCache :: "string \<rightharpoonup> (string \<rightharpoonup> nat)"
  promises :: "promise list"
  cacheHits :: nat
  cacheMisses :: nat

text \<open>
  What \<^verbatim>\<open>compile()\<close> hands to its caller: a function, or (on a cache hit) the cached
  promise, which the caller then awaits.
\<close>

datatype compile_result = Function compiled | CachedPromise nat

text \<open>
  \<^verbatim>\<open>_getCompileCache\<close>: it makes the map of the input path when there is none, and returns
  \<open>(cacheable, key, useCache)\<close>; the map itself is \<open>compileCache st (inputPath t)\<close>. The
  \<^verbatim>\<open>engine\<close> getter can throw; inside the \<^verbatim>\<open>try\<close> of \<^verbatim>\<open>compile()\<close> the \<^verbatim>\<open>catch\<close> block then
  calls it again and the same error leaves \<^verbatim>\<open>compile()\<close> as it is.
\<close>

definition ensureInputPathMap :: "string \<Rightarrow> compile_state \<Rightarrow> compile_state" where
  "ensureInputPathMap path st =
     (case compileCache st path of
        None \<Rightarrow> st\<lparr> compileCache := (compileCache st)(path \<mapsto> Map.empty) \<rparr>
      | Some inputPathMap \<Rightarrow> st)"

definition getCompileCache ::
  "content_env \<Rightarrow> tmpl \<Rightarrow> string \<Rightarrow> compile_state \<Rightarrow>
     (error + bool \<times> string \<times> bool) \<times> compile_state" where
  "getCompileCache env t str st =
     (let st1 = ensureInputPathMap (inputPath t) st
      in case get_engine t of
           Inl e \<Rightarrow> (Inl e, st1)
         | Inr eng \<Rightarrow>
             (case getCompileCacheKey eng str (inputPath t) of
                (useCache, key) \<Rightarrow> (Inr (cacheable eng, uniqueId env @ key, useCache), st1)))"

definition cache_get :: "compile_state \<Rightarrow> string \<Rightarrow> string \<Rightarrow> nat option" where
  "cache_get st path key =
     (case compileCache st path of None \<Rightarrow> None | Some inputPathMap \<Rightarrow> inputPathMap key)"

definition cache_set :: "string \<Rightarrow> string \<Rightarrow> nat \<Rightarrow> compile_state \<Rightarrow> compile_state" where
  "cache_set path key p st =
     (case compileCache st path of
        None \<Rightarrow> st
      | Some inputPathMap \<Rightarrow>
          st\<lparr> compileCache := (compileCache st)(path \<mapsto> inputPathMap(key \<mapsto> p)) \<rparr>)"

definition cache_delete :: "string \<Rightarrow> string \<Rightarrow> compile_state \<Rightarrow> compile_state" where
  "cache_delete path key st =
     (case compileCache st path of
        None \<Rightarrow> st
      | Some inputPathMap \<Rightarrow>
          st\<lparr> compileCache := (compileCache st)(path \<mapsto> inputPathMap(key := None)) \<rparr>)"

text \<open>
  \<^verbatim>\<open>compile()\<close> runs in two stretches, with \<^verbatim>\<open>await tr.getCompiledTemplate(str)\<close> between
  them. The first stretch either finishes the call or leaves it waiting for the
  engine, holding \<^verbatim>\<open>res\<close>: the address of the placeholder promise it has cached, if any.
  An engine override replaces the engine of the template render; without one the
  template render only notes whether markdown is in use, which none of the tests below
  reads.
\<close>

datatype compile_step = Finished "error + compile_result" | Compiling "nat option"

definition compile_begin ::
  "content_env \<Rightarrow> tmpl \<Rightarrow> string \<Rightarrow> bool \<Rightarrow> string option \<Rightarrow> compile_state \<Rightarrow>
     compile_step \<times> tmpl \<times> compile_state" where
  "compile_begin env t str bypassMarkdown engineOverride st =
     (case getTemplateRender env t of
        Inl e \<Rightarrow> (Finished (Inl e), t, st)
      | Inr (eng0, t1) \<Rightarrow>
          (case (case engineOverride of
                   Some name \<Rightarrow> setEngineOverride env eng0 name bypassMarkdown
                 | None \<Rightarrow> Inr eng0) of
             Inl e \<Rightarrow> (Finished (Inl e), t1, st)
           | Inr eng \<Rightarrow>
               (let t2 = t1\<lparr> templateRender := Some eng \<rparr>
                in if bypassMarkdown \<and> \<not> needsCompilation eng str then
                     (Finished (Inr (Function (ReturnsString str))), t2, st)
                   else if useTemplateCache env then
                     (case getCompileCache env t2 str st of
                        (Inl e, st1) \<Rightarrow> (Finished (Inl e), t2, st1)
                      | (Inr (isCacheable, key, useCache), st1) \<Rightarrow>
                          if isCacheable \<and> key \<noteq> [] then
                            (case (if useCache then cache_get st1 (inputPath t2) key else None) of
                               Some p \<Rightarrow>
                                 (Finished (Inr (CachedPromise p)), t2,
                                  st1\<lparr> cacheHits := cacheHits st1 + 1 \<rparr>)
                             | None \<Rightarrow>
                                 (let p = length (promises st1)
                                  in (Compiling (Some p), t2,
                                      (cache_set (inputPath t2) key p st1)
                                        \<lparr> promises := promises st1 @ [Pending],
                                          cacheMisses := cacheMisses st1 + 1 \<rparr>)))
                          else (Compiling None, t2, st1))
                   else (Compiling None, t2, st))))"

text \<open>
  The second stretch, given what \<^verbatim>\<open>getCompiledTemplate\<close> settled to: on success the
  placeholder is resolved with the function, on failure the \<^verbatim>\<open>catch\<close> block removes the
  key and throws the wrapped error.
\<close>

definition compile_end ::
  "content_env \<Rightarrow> tmpl \<Rightarrow> string \<Rightarrow> nat option \<Rightarrow> error + compiled \<Rightarrow> compile_state \<Rightarrow>
     (error + compile_result) \<times> compile_state" where
  "compile_end env t str res outcome st =
     (case outcome of
        Inr fn \<Rightarrow>
          (Inr (Function fn),
           case res of
             Some p \<Rightarrow>
               if useTemplateCache env then st\<lparr> promises := (promises st)[p := Resolved fn] \<rparr>
               else st
           | None \<Rightarrow> st)
      | Inl e \<Rightarrow>
          (case getCompileCache env t str st of
             (Inl e', st1) \<Rightarrow> (Inl e', st1)
           | (Inr (isCacheable, key, useCache), st1) \<Rightarrow>
               (Inl (TemplateContentCompileError
                       (''Having trouble compiling template '' @ inputPath t) e),
                if isCacheable \<and> key \<noteq> [] then cache_delete (inputPath t) key st1 else st1)))"

section \<open>TemplateWriter: generating the templates\<close>

text \<open>
  A map entry as \<^verbatim>\<open>generateTemplates\<close> reads it: its input path, its own
  \<^verbatim>\<open>outputPath\<close> property (absent on an entry that only has pages) and the output paths
  of its pages.
\<close>

record map_entry =
  entry_inputPath :: string
  entry_outputPath :: "string option"
  entry_pages :: "string list"

text \<open>\<^verbatim>\<open>Array.prototype.join\<close> on strings, and a template literal's text for a property.\<close>

fun join :: "string \<Rightarrow> string list \<Rightarrow> string" where
  "join sep [] = []"
| "join sep [x] = x"
| "join sep (x # y # ys) = x @ sep @ join sep (y # ys)"

definition interpolate :: "string option \<Rightarrow> string" where
  "interpolate v = (case v of None \<Rightarrow> ''undefined'' | Some s \<Rightarrow> s)"

definition dq :: string where
  "dq = [CHR 0x22]"

text \<open>
  \<^verbatim>\<open>generateTemplates\<close> is one synchronous stretch after \<^verbatim>\<open>_createTemplateMap\<close>: two loops
  with no \<^verbatim>\<open>await\<close> between or inside them. \<^verbatim>\<open>_generateTemplate\<close> is an async function,
  so each call returns a promise at once, and \<^verbatim>\<open>.catch(handler)\<close> only registers the
  handler: a promise reaction never runs before the running stretch has ended. What a
  loop pushes is therefore a promise with a reaction still to run, named here by the
  pass and the entry it was made for. The state holds the array
  \<^verbatim>\<open>usedTemplateContentTooEarlyMap\<close> and the calls of \<^verbatim>\<open>_generateTemplate\<close> made so far.
\<close>

datatype pass = MainPass | SecondPass

record reaction =
  r_pass :: pass
  r_entry :: map_entry

record gen_state =
  usedTemplateContentTooEarlyMap :: "map_entry list"
  generated :: "(pass \<times> map_entry) list"

text \<open>One turn of either loop: call \<^verbatim>\<open>_generateTemplate\<close>, attach the handler, push.\<close>

definition pushGenerate ::
  "pass \<Rightarrow> map_entry \<Rightarrow> reaction list \<times> gen_state \<Rightarrow> reaction list \<times> gen_state" where
  "pushGenerate p mapEntry st =
     (fst st @ [\<lparr> r_pass = p, r_entry = mapEntry \<rparr>],
      (snd st)\<lparr> generated := generated (snd st) @ [(p, mapEntry)] \<rparr>)"

fun pushAll ::
  "pass \<Rightarrow> map_entry list \<Rightarrow> reaction list \<times> gen_state \<Rightarrow> reaction list \<times> gen_state" where
  "pushAll p [] st = st"
| "pushAll p (mapEntry # rest) st = pushAll p rest (pushGenerate p mapEntry st)"

text \<open>
  The two loops. The second one walks \<^verbatim>\<open>usedTemplateContentTooEarlyMap\<close> as it is when
  the first loop has ended.
\<close>

definition generateTemplates :: "map_entry list \<Rightarrow> reaction list \<times> gen_state" where
  "generateTemplates getMap =
     (let st1 = pushAll MainPass getMap
                  ([], \<lparr> usedTemplateContentTooEarlyMap = [], generated = [] \<rparr>)
      in pushAll SecondPass (usedTemplateContentTooEarlyMap (snd st1)) st1)"

text \<open>
  After \<^verbatim>\<open>generateTemplates\<close> has returned, the promises settle and the handlers run.
  \<open>generateMapEntry\<close> is what the render of an entry in a pass comes to (Template.js);
  \<open>isPrematureTemplateContentError\<close> is the test of EleventyErrorUtil. A promise of the
  array is fulfilled, with the pages or with \<^verbatim>\<open>undefined\<close> (\<open>None\<close>), or rejected.
\<close>

datatype settled = Fulfilled "string list option" | Rejected error

definition runReaction ::
  "(pass \<Rightarrow> map_entry \<Rightarrow> error + string list) \<Rightarrow> (error \<Rightarrow> bool) \<Rightarrow> reaction \<Rightarrow>
     gen_state \<Rightarrow> settled \<times> gen_state" where
  "runReaction generateMapEntry isPrematureTemplateContentError r st =
     (let mapEntry = r_entry r in
      case generateMapEntry (r_pass r) mapEntry of
        Inr pages \<Rightarrow> (Fulfilled (Some pages), st)
      | Inl e \<Rightarrow>
          (case r_pass r of
             MainPass \<Rightarrow>
               if isPrematureTemplateContentError e then
                 (Fulfilled None,
                  st\<lparr> usedTemplateContentTooEarlyMap :=
                         usedTemplateContentTooEarlyMap st @ [mapEntry] \<rparr>)
               else
                 (Rejected (EleventyTemplateError
                    (''Having trouble writing to '' @
                       (dq @ join (dq @ '', '' @ dq) (entry_pages mapEntry) @ dq) @
                       '' from '' @ dq @ entry_inputPath mapEntry @ dq) e),
                  st)
           | SecondPass \<Rightarrow>
               (Rejected (EleventyTemplateError
                  (''Having trouble writing to (second pass) '' @ dq @
                     interpolate (entry_outputPath mapEntry) @ dq @
                     '' from '' @ dq @ entry_inputPath mapEntry @ dq) e),
                st)))"

fun settleAll ::
  "(pass \<Rightarrow> map_entry \<Rightarrow> error + string list) \<Rightarrow> (error \<Rightarrow> bool) \<Rightarrow> reaction list \<Rightarrow>
     gen_state \<Rightarrow> settled list \<times> gen_state" where
  "settleAll generateMapEntry isPremature [] st = ([], st)"
| "settleAll generateMapEntry isPremature (r # rs) st =
     (case runReaction generateMapEntry isPremature r st of
        (result, st1) \<Rightarrow>
          (case settleAll generateMapEntry isPremature rs st1 of
             (results, st2) \<Rightarrow> (result # results, st2)))"

section \<open>TemplateMap: the render order\<close>

text \<open>
  Modelled from the spec: TemplateMap.js is missing (its acceptance test is there), so
  the map entry, \<^verbatim>\<open>add\<close>, \<^verbatim>\<open>cache\<close> and \<^verbatim>\<open>getTemplateOrder\<close> follow the specification's
  description of the template map. A map entry owns a document, the
  names of the collections it declares (it writes to them and to the all-collection)
  and the names of the collections it reads.
\<close>

record tm_entry =
  te_inputPath :: string
  te_declares :: "string list"
  te_reads :: "string list"

record template_map =
  tm_map :: "tm_entry list"
  tm_order :: "string list"

definition newTemplateMap :: template_map where
  "newTemplateMap = \<lparr> tm_map = [], tm_order = [] \<rparr>"

text \<open>Modelled from the spec: \<^verbatim>\<open>add(document)\<close> registers a map entry, after those added before.\<close>

definition add :: "tm_entry \<Rightarrow> template_map \<Rightarrow> template_map" where
  "add e tm = tm\<lparr> tm_map := tm_map tm @ [e] \<rparr>"

definition allCollection :: string where
  "allCollection = ''all''"

definition keysCollection :: string where
  "keysCollection = ''[keys]''"

text \<open>
  Modelled from the spec: step 1 of \<^verbatim>\<open>cache()\<close>. An entry writes to the collections it
  declares and to the implicit all-collection; it reads from the collections in
  \<open>te_reads\<close>.
\<close>

definition writesTo :: "tm_entry \<Rightarrow> string list" where
  "writesTo e = te_declares e @ [allCollection]"

text \<open>
  Modelled from the spec: step 2 of \<^verbatim>\<open>cache()\<close>. Entry \<open>a\<close> must be rendered before
  another entry \<open>b\<close> whenever \<open>b\<close> reads a collection that \<open>a\<close> writes to, the
  all-collection included; and the all-collection and the keys-collection are barriers:
  an entry that reads one of them depends on every entry that writes to any named
  collection. A document is known by its input path, and no entry is ordered against
  itself.
\<close>

definition mustPrecede :: "tm_entry \<Rightarrow> tm_entry \<Rightarrow> bool" where
  "mustPrecede a b =
     (te_inputPath a \<noteq> te_inputPath b \<and>
      (list_ex (\<lambda>c. c \<in> set (writesTo a)) (te_reads b) \<or>
       ((allCollection \<in> set (te_reads b) \<or> keysCollection \<in> set (te_reads b)) \<and>
        te_declares a \<noteq> [])))"

text \<open>
  Modelled from the spec: steps 3 and 4 of \<^verbatim>\<open>cache()\<close>. The next entry of the order is
  the earliest added of the remaining entries that no remaining entry must precede;
  when there is none (the remaining entries depend on each other in a cycle) it is the
  earliest added of the remaining entries.
\<close>

definition isReady :: "tm_entry list \<Rightarrow> tm_entry \<Rightarrow> bool" where
  "isReady remaining e = (\<not> list_ex (\<lambda>a. mustPrecede a e) remaining)"

definition nextEntry :: "tm_entry list \<Rightarrow> tm_entry option" where
  "nextEntry remaining =
     (case filter (isReady remaining) remaining of
        e # ready \<Rightarrow> Some e
      | [] \<Rightarrow> (case remaining of e # rest \<Rightarrow> Some e | [] \<Rightarrow> None))"

fun orderEntries :: "nat \<Rightarrow> tm_entry list \<Rightarrow> tm_entry list" where
  "orderEntries 0 remaining = []"
| "orderEntries (Suc n) remaining =
     (case nextEntry remaining of
        None \<Rightarrow> []
      | Some e \<Rightarrow> e # orderEntries n (remove1 e remaining))"

definition topologicalOrder :: "tm_entry list \<Rightarrow> tm_entry list" where
  "topologicalOrder entries = orderEntries (length entries) entries"

text \<open>
  Modelled from the spec: \<^verbatim>\<open>getTemplateOrder()\<close> lists the entries in the computed
  order, with a marker at the point where a collection is complete, that is where no
  entry that writes to it is still to come. So the marker of a named collection stands
  after the last entry that declares it; the marker of the keys-collection, which
  records the names of the collections, where every named collection is complete; the
  marker of the all-collection, which every entry writes to, after the last entry.
  \<open>completeMarkers names rest\<close> are the markers of the collections that are complete
  when the entries \<open>rest\<close> are still to come.
\<close>

definition marker :: "string \<Rightarrow> string" where
  "marker name = ''__collection:'' @ name"

definition collectionNames :: "tm_entry list \<Rightarrow> string list" where
  "collectionNames entries = remdups (concat (map te_declares entries))"

definition writtenLater :: "tm_entry list \<Rightarrow> string \<Rightarrow> bool" where
  "writtenLater rest c = list_ex (\<lambda>a. c \<in> set (te_declares a)) rest"

definition completeMarkers :: "string list \<Rightarrow> tm_entry list \<Rightarrow> string list" where
  "completeMarkers names rest =
     map marker (filter (\<lambda>c. \<not> writtenLater rest c) names) @
     (if list_ex (writtenLater rest) names then [] else [marker keysCollection]) @
     (if rest = [] then [marker allCollection] else [])"

fun withMarkers :: "string list \<Rightarrow> tm_entry list \<Rightarrow> string list" where
  "withMarkers names [] = []"
| "withMarkers names (e # rest) =
     te_inputPath e #
     filter (\<lambda>m. m \<notin> set (completeMarkers names (e # rest))) (completeMarkers names rest) @
     withMarkers names rest"

definition templateOrder :: "tm_entry list \<Rightarrow> string list" where
  "templateOrder entries =
     (let names = collectionNames entries;
          ordered = topologicalOrder entries
      in completeMarkers names ordered @ withMarkers names ordered)"

definition cache_map :: "template_map \<Rightarrow> template_map" where
  "cache_map tm = tm\<lparr> tm_order := templateOrder (tm_map tm) \<rparr>"

definition getTemplateOrder :: "template_map \<Rightarrow> string list" where
  "getTemplateOrder tm = tm_order tm"

section \<open>Example values\<close>

definition plain_engine :: engine where
  "plain_engine =
     \<lparr> hasDependencies = (\<lambda>f. f = JStr ''./_includes/base.njk''),
       isFileRelevantTo = (\<lambda>p f. f = JStr p \<or> (p = ''./index.md'' \<and> f = JStr ''./_includes/base.njk'')),
       extensionEntries = [],
       cacheable = True,
       getCompileCacheKey = (\<lambda>str p. (True, p @ str)),
       needsCompilation = (\<lambda>str. True),
       needsToReadFileContents = True \<rparr>"

definition new_tmpl :: "string \<Rightarrow> engine option \<Rightarrow> tmpl" where
  "new_tmpl p e =
     \<lparr> inputPath = p, templateRender = e, renderableOverride = Unset,
       dryRunViaIncremental = False, inputContent = NoContent, readingPromise = None,
       frontMatterField = None, frontMatterDataCache = None, dataCache = None,
       renderCache = None \<rparr>"

text \<open>
  Three templates at the addresses 0, 1 and 2. In the example graph the changed file
  \<^verbatim>\<open>./another-post.md\<close> uses \<^verbatim>\<open>./index.md\<close>, and the two posts are what is relevant
  to \<^verbatim>\<open>./index.md\<close>; the graph names its nodes without the leading \<^verbatim>\<open>./\<close>.
\<close>

definition example_templates :: heap where
  "example_templates r =
     (if r = 0 then new_tmpl ''./post.md'' (Some plain_engine)
      else if r = 1 then new_tmpl ''./another-post.md'' (Some plain_engine)
      else new_tmpl ''./index.md'' (Some plain_engine))"

definition example_uses :: uses_graph where
  "example_uses =
     \<lparr> isFileUsedBy = (\<lambda>f p. f = JStr ''./another-post.md'' \<and> p = ''./index.md''),
       getTemplatesRelevantToTemplateList =
         (\<lambda>l. if ''./index.md'' \<in> set l then [''post.md'', ''another-post.md''] else []) \<rparr>"

definition example_writer :: "jsval \<Rightarrow> writer" where
  "example_writer f =
     \<lparr> incrementalFile = f, isRunInitialBuild = True, skippedCount = 0,
       config_uses = example_uses \<rparr>"

definition example_addLeadingDotSlash :: "string \<Rightarrow> string" where
  "example_addLeadingDotSlash p = (if take 2 p = ''./'' then p else ''./'' @ p)"

definition example_build :: "jsval \<Rightarrow> file_shape \<Rightarrow> error + writer \<times> heap" where
  "example_build f shape =
     addToTemplateMapIncrementalBuild example_addLeadingDotSlash shape [0, 1, 2]
       (example_writer f) example_templates"

definition example_classified_heap :: heap where
  "example_classified_heap =
     example_templates
       (0 := setRenderableOverride Disabled (example_templates 0),
        2 := setRenderableOverride Optional (example_templates 2))"

definition example_reset :: "heap \<times> nat" where
  "example_reset =
     resetTemplates (example_writer (JStr ''./another-post.md'')) ShapeTemplate [0, 1, 2]
       (example_classified_heap, 0)"

text \<open>
  An example environment: a parser that accepts strings and buffers, and two virtual
  templates, one whose content is a Buffer (an object) and one with no content.
\<close>

definition example_matter :: "jsval \<Rightarrow> fm_options \<Rightarrow> error + frontmatter" where
  "example_matter c opts =
     (case c of
        JStr s \<Rightarrow> Inr \<lparr> fm_data = [], fm_content = s, fm_excerpt = [] \<rparr>
      | JObj \<Rightarrow> Inr \<lparr> fm_data = [], fm_content = ''from a buffer'', fm_excerpt = [] \<rparr>
      | _ \<Rightarrow> Inl (Error ''expected input to be a string or buffer''))"

definition example_env :: "string \<Rightarrow> content_env" where
  "example_env uid =
     \<lparr> matter = example_matter,
       os_EOL = [CHR 0x0A],
       trim = (\<lambda>s. s),
       lodashSet = (\<lambda>d k v. (k, v) # d),
       readFile = (\<lambda>p. Inl (Error ''ENOENT'')),
       absolutePath = (\<lambda>p. p),
       newTemplateRender = (\<lambda>p. Inr plain_engine),
       setEngineOverride = (\<lambda>eng name bypassMarkdown. Inr eng),
       uniqueId = uid,
       frontMatterParsingOptions = None,
       useTemplateCache = True,
       virtualTemplates =
         (\<lambda>p. if p = ''./buffer.md'' then Some \<lparr> vt_content = JObj, vt_data = [] \<rparr>
              else if p = ''./none.md'' then Some \<lparr> vt_content = JUndefined, vt_data = [] \<rparr>
              else None) \<rparr>"

definition example_state :: content_state where
  "example_state = \<lparr> inputCache = Map.empty, matterCalls = [] \<rparr>"

definition example_compile_state :: compile_state where
  "example_compile_state =
     \<lparr> compileCache = Map.empty, promises = [], cacheHits = 0, cacheMisses = 0 \<rparr>"

text \<open>
  A map with one entry, whose render in the main pass fails because it used template
  content too early and would succeed in a second pass.
\<close>

definition example_entry :: map_entry where
  "example_entry =
     \<lparr> entry_inputPath = ''./index.md'', entry_outputPath = None,
       entry_pages = [''./_site/index.html''] \<rparr>"

definition example_generateMapEntry :: "pass \<Rightarrow> map_entry \<Rightarrow> error + string list" where
  "example_generateMapEntry p mapEntry =
     (case p of
        MainPass \<Rightarrow> Inl PrematureTemplateContentError
      | SecondPass \<Rightarrow> Inr (entry_pages mapEntry))"

definition example_isPremature :: "error \<Rightarrow> bool" where
  "example_isPremature e = (e = PrematureTemplateContentError)"

text \<open>
  The three documents of the acceptance test: two posts, both in the collection
  \<^verbatim>\<open>post\<close> and unrelated to each other, and an index that reads the collection
  \<^verbatim>\<open>post\<close> and the all-collection.
\<close>

definition post_md :: tm_entry where
  "post_md = \<lparr> te_inputPath = ''./test/_issues/975/post.md'', te_declares = [''post''],
               te_reads = [] \<rparr>"

definition another_post_md :: tm_entry where
  "another_post_md =
     \<lparr> te_inputPath = ''./test/_issues/975/another-post.md'', te_declares = [''post''],
       te_reads = [] \<rparr>"

definition index_md :: tm_entry where
  "index_md = \<lparr> te_inputPath = ''./test/_issues/975/index.md'', te_declares = [],
                te_reads = [''post'', ''all''] \<rparr>"

text \<open>
  An engine with two extension entries: one without an \<^verbatim>\<open>isIncrementalMatch\<close> callback,
  and one whose callback matches a changed stylesheet that is not a full template.
\<close>

definition incremental_engine :: engine where
  "incremental_engine =
     plain_engine
       \<lparr> extensionEntries :=
           [\<lparr> isIncrementalMatch = None \<rparr>,
            \<lparr> isIncrementalMatch =
                Some (\<lambda>ctx file. ctx_isFullTemplate ctx = Some False \<and>
                                  file = JStr ''./style.css'') \<rparr>] \<rparr>"

text \<open>A document with no tags that reads no collection.\<close>

definition about_md :: tm_entry where
  "about_md = \<lparr> te_inputPath = ''./test/_issues/975/about.md'', te_declares = [],
                te_reads = [] \<rparr>"

section \<open>The shape of the changed file\<close>

text \<open>
  When the changed file is one of the paths of the build, its shape is never undefined:
  it is a template, unless the passthrough manager claims it (and then no template is
  added at all). So for a template of the build, having the changed file as input path
  is a full-template change.
\<close>

lemma getFileShape_of_listed_path:
  "path \<in> set paths \<Longrightarrow> path \<noteq> [] \<Longrightarrow>
   getFileShape isCopy paths (JStr path) = (if isCopy then ShapeCopy else ShapeTemplate)"
  by (auto simp: getFileShape_def isFullTemplateFile_def list_ex_iff)

lemma writerFileShape_of_listed_path:
  "path \<in> set paths \<Longrightarrow> path \<noteq> [] \<Longrightarrow>
   writerFileShape eleventyFiles paths (JStr path) =
     (if eleventyFiles = Some True then ShapeCopy else ShapeTemplate)"
  by (cases eleventyFiles) (simp_all add: writerFileShape_def getFileShape_of_listed_path)

section \<open>The loops of the incremental build\<close>

lemma isFileRelevant_total:
  "templateRender t \<noteq> None \<Longrightarrow> \<exists>b. isFileRelevantToThisTemplate t file md = Inr b"
  by (auto simp: isFileRelevantToThisTemplate_def get_engine_def Let_def)

lemma isFileRelevant_setRenderableOverride [simp]:
  "isFileRelevantToThisTemplate (setRenderableOverride v t) file md =
   isFileRelevantToThisTemplate t file md"
  by (simp add: isFileRelevantToThisTemplate_def get_engine_def setRenderableOverride_def
      incremental_ctx_def Let_def split: option.splits)

lemma setRenderableOverride_fields [simp]:
  "inputPath (setRenderableOverride v t) = inputPath t"
  "templateRender (setRenderableOverride v t) = templateRender t"
  "renderableOverride (setRenderableOverride v t) = v"
  by (simp_all add: setRenderableOverride_def)

lemma classification_setRenderableOverride [simp]:
  "classification w shape (setRenderableOverride v t) = classification w shape t"
  "firstOrderRelevant w shape (setRenderableOverride v t) = firstOrderRelevant w shape t"
  by (simp_all add: classification_def firstOrderRelevant_def relevantTo_def
      isIncrementalTemplate_def)

lemma setRenderableOverride_twice [simp]:
  "setRenderableOverride v (setRenderableOverride u t) = setRenderableOverride v t"
  by (simp add: setRenderableOverride_def)

lemma classifyTemplate_initialised:
  assumes "templateRender t \<noteq> None"
  shows "classifyTemplate w shape t =
         Inr (setRenderableOverride (classification w shape t) t, firstOrderRelevant w shape t)"
proof -
  obtain b where b: "isFileRelevantToThisTemplate t (incrementalFile w)
      \<lparr> isFullTemplate = Some (shape = ShapeTemplate) \<rparr> = Inr b"
    using isFileRelevant_total [OF assms] by blast
  show ?thesis
    using b by (simp add: classifyTemplate_def classification_def firstOrderRelevant_def
        relevantTo_def)
qed

lemma classifyTemplates_result:
  assumes "\<forall>r \<in> set rs. templateRender (h r) \<noteq> None"
  shows "\<exists>h1 lookup1. classifyTemplates w shape rs (h, lookup) = Inr (h1, lookup1) \<and>
           (\<forall>r. h1 r = (if r \<in> set rs
                         then setRenderableOverride (classification w shape (h r)) (h r)
                         else h r)) \<and>
           set lookup1 = set lookup \<union>
             {inputPath (h r) | r. r \<in> set rs \<and> firstOrderRelevant w shape (h r)}"
  using assms
proof (induction rs arbitrary: h lookup)
  case Nil
  then show ?case by simp
next
  case (Cons r rs)
  let ?t = "setRenderableOverride (classification w shape (h r)) (h r)"
  let ?h = "h(r := ?t)"
  let ?l = "if firstOrderRelevant w shape (h r) then object_set lookup (inputPath (h r)) else lookup"
  have step: "classifyTemplate w shape (h r) = Inr (?t, firstOrderRelevant w shape (h r))"
    using Cons.prems by (simp add: classifyTemplate_initialised)
  have init: "\<forall>x \<in> set rs. templateRender (?h x) \<noteq> None"
    using Cons.prems by simp
  obtain h1 lookup1 where
    run: "classifyTemplates w shape rs (?h, ?l) = Inr (h1, lookup1)" and
    heap: "\<forall>x. h1 x = (if x \<in> set rs
                         then setRenderableOverride (classification w shape (?h x)) (?h x)
                         else ?h x)" and
    keys: "set lookup1 = set ?l \<union>
             {inputPath (?h x) | x. x \<in> set rs \<and> firstOrderRelevant w shape (?h x)}"
    using Cons.IH [OF init, of ?l] by blast
  have run': "classifyTemplates w shape (r # rs) (h, lookup) = Inr (h1, lookup1)"
    using step run by (cases "firstOrderRelevant w shape (h r)") simp_all
  have heap': "\<forall>x. h1 x = (if x \<in> set (r # rs)
                         then setRenderableOverride (classification w shape (h x)) (h x)
                         else h x)"
    using heap by simp
  have same: "\<And>x. inputPath (?h x) = inputPath (h x)"
             "\<And>x. firstOrderRelevant w shape (?h x) = firstOrderRelevant w shape (h x)"
    by simp_all
  have keys': "set lookup1 = set lookup \<union>
             {inputPath (h x) | x. x \<in> set (r # rs) \<and> firstOrderRelevant w shape (h x)}"
    unfolding keys same by (auto simp: object_set_def)
  show ?case using run' heap' keys' by blast
qed

lemma upgradeTemplate_idem [simp]:
  "upgradeTemplate arr (upgradeTemplate arr t) = upgradeTemplate arr t"
  by (simp add: upgradeTemplate_def isRenderableDisabled_def)

lemma upgradeTemplates_result:
  "upgradeTemplates arr rs h r = (if r \<in> set rs then upgradeTemplate arr (h r) else h r)"
  by (induction rs arbitrary: h) auto

lemma resetTemplate_again [simp]:
  "resetTemplate w shape (fst (resetTemplate w shape t)) = resetTemplate w shape t"
  by (simp add: resetTemplate_def isIncrementalTemplate_def isRenderableDisabled_def
      isRenderableOptional_def setDryRunViaIncremental_def Template_resetCaches_def
      resetCaches_def getResetTypes_def Let_def)

lemma resetTemplates_result:
  "resetTemplates w shape rs (h, n) = (h3, n3) \<Longrightarrow>
     (\<forall>r. h3 r = (if r \<in> set rs then fst (resetTemplate w shape (h r)) else h r)) \<and>
     n3 = n + length (filter (\<lambda>r. snd (resetTemplate w shape (h r))) rs)"
proof (induction rs arbitrary: h n)
  case Nil
  then show ?case by simp
next
  case (Cons r rs)
  obtain t skip where step: "resetTemplate w shape (h r) = (t, skip)"
    by (cases "resetTemplate w shape (h r)")
  let ?h = "h(r := t)"
  let ?n = "if skip then n + 1 else n"
  have run: "resetTemplates w shape rs (?h, ?n) = (h3, n3)"
    using Cons.prems step by simp
  have again: "resetTemplate w shape t = (t, skip)"
    using resetTemplate_again [of w shape "h r"] step by simp
  have same: "\<And>x. resetTemplate w shape (?h x) = resetTemplate w shape (h x)"
    using again step by simp
  from Cons.IH [OF run] show ?case
    unfolding same using step by auto
qed

lemma resetTemplate_override [simp]:
  "renderableOverride (fst (resetTemplate w shape t)) = renderableOverride t"
  by (simp add: resetTemplate_def setDryRunViaIncremental_def Template_resetCaches_def
      resetCaches_def getResetTypes_def Let_def)

lemma upgradeTemplate_override:
  "renderableOverride (upgradeTemplate arr t) =
     (if inputPath t \<in> set arr \<and> renderableOverride t = Disabled then Optional
      else renderableOverride t)"
  by (simp add: upgradeTemplate_def isRenderableDisabled_def)

lemma example_initialised:
  "\<forall>r \<in> set [0, 1, 2]. templateRender (example_templates r) \<noteq> None"
  by (simp add: example_templates_def new_tmpl_def)

lemma example_classified:
  "classifyTemplates (example_writer (JStr ''./_includes/base.njk'')) ShapeUndefined [0, 1, 2]
     (example_templates, []) =
   Inr (example_templates
          (0 := setRenderableOverride Disabled (example_templates 0),
           1 := setRenderableOverride Disabled (example_templates 1),
           2 := setRenderableOverride Unset (example_templates 2)),
        [''./index.md''])"
  by (simp add: classifyTemplate_def isIncrementalTemplate_def example_writer_def
      example_templates_def new_tmpl_def example_uses_def plain_engine_def
      isFileRelevantToThisTemplate_def get_engine_def object_set_def)

lemma upgradeTemplates_none [simp]: "upgradeTemplates [] rs h = h"
  by (induction rs arbitrary: h) (simp_all add: upgradeTemplate_def)

lemma example_classified_template:
  "classifyTemplates (example_writer (JStr ''./another-post.md'')) ShapeTemplate [0, 1, 2]
     (example_templates, []) =
   Inr (example_templates
          (0 := setRenderableOverride Disabled (example_templates 0),
           1 := setRenderableOverride Unset (example_templates 1),
           2 := setRenderableOverride Optional (example_templates 2)),
        [])"
  by (simp add: classifyTemplate_def isIncrementalTemplate_def example_writer_def
      example_templates_def new_tmpl_def example_uses_def plain_engine_def
      isFileRelevantToThisTemplate_def get_engine_def object_set_def)

lemma example_build_template:
  "example_build (JStr ''./another-post.md'') ShapeTemplate =
   Inr (finishIncrementalBuild (example_writer (JStr ''./another-post.md''))
          (resetTemplates (example_writer (JStr ''./another-post.md'')) ShapeTemplate [0, 1, 2]
             (example_templates
               (0 := setRenderableOverride Disabled (example_templates 0),
                1 := setRenderableOverride Unset (example_templates 1),
                2 := setRenderableOverride Optional (example_templates 2)), 0)))"
proof -
  have a: "isRunInitialBuild (example_writer (JStr ''./another-post.md''))"
    and b: "skippedCount (example_writer (JStr ''./another-post.md'')) = 0"
    and c: "secondOrderRelevantArray example_addLeadingDotSlash
              (example_writer (JStr ''./another-post.md'')) [] = []"
    by (simp_all add: example_writer_def secondOrderRelevantArray_def example_uses_def)
  show ?thesis
    unfolding example_build_def addToTemplateMapIncrementalBuild_def example_classified_template
    by (simp only: a b c upgradeTemplates_none Let_def sum.case prod.case simp_thms if_False)
qed

lemma example_reset_template:
  "resetTemplates (example_writer (JStr ''./another-post.md'')) ShapeTemplate [0, 1, 2]
     (example_templates
        (0 := setRenderableOverride Disabled (example_templates 0),
         1 := setRenderableOverride Unset (example_templates 1),
         2 := setRenderableOverride Optional (example_templates 2)), 0) = (h3, n3) \<Longrightarrow>
   n3 = 2 \<and> renderableOverride (h3 0) = Disabled \<and> renderableOverride (h3 1) = Unset \<and>
   renderableOverride (h3 2) = Optional"
  by (drule resetTemplates_result)
     (simp add: resetTemplate_def isIncrementalTemplate_def isRenderableDisabled_def
        isRenderableOptional_def example_writer_def example_templates_def new_tmpl_def
        setRenderableOverride_def setDryRunViaIncremental_def Template_resetCaches_def
        resetCaches_def getResetTypes_def Let_def)

section \<open>Reading leaves the parser trace alone until it parses\<close>

lemma getInputContent_matterCalls:
  "getInputContent env t st = (p, t1, st1) \<Longrightarrow> matterCalls st1 = matterCalls st"
  by (auto simp: getInputContent_def cache_def Let_def
      split: sum.splits prod.splits if_splits option.splits)

lemma awaitInputContent_matterCalls:
  "awaitInputContent env t st = (p, t1, st1) \<Longrightarrow> matterCalls st1 = matterCalls st"
  by (auto simp: awaitInputContent_def split: content_slot.splits if_splits prod.splits
      dest: getInputContent_matterCalls)

section \<open>The two stretches of a compile\<close>

lemma getCompileCache_initialised:
  "templateRender t = Some eng \<Longrightarrow> getCompileCacheKey eng str (inputPath t) = (u, k) \<Longrightarrow>
   getCompileCache env t str st =
     (Inr (cacheable eng, uniqueId env @ k, u), ensureInputPathMap (inputPath t) st)"
  by (simp add: getCompileCache_def get_engine_def)

lemma ensureInputPathMap_simps [simp]:
  "cache_get (ensureInputPathMap path st) path' key = cache_get st path' key"
  "compileCache (ensureInputPathMap path st) path \<noteq> None"
  "promises (ensureInputPathMap path st) = promises st"
  by (auto simp: ensureInputPathMap_def cache_get_def split: option.splits)

lemma ensureInputPathMap_idem [simp]:
  "compileCache st path \<noteq> None \<Longrightarrow> ensureInputPathMap path st = st"
  by (auto simp: ensureInputPathMap_def)

lemma cache_get_set:
  "compileCache st path \<noteq> None \<Longrightarrow>
   cache_get (cache_set path key p st) path key' = (if key' = key then Some p else cache_get st path key')"
  by (auto simp: cache_get_def cache_set_def)

lemma cache_set_simps [simp]:
  "promises (cache_set path key p st) = promises st"
  "compileCache st path \<noteq> None \<Longrightarrow> compileCache (cache_set path key p st) path \<noteq> None"
  by (auto simp: cache_set_def split: option.splits)

lemma cache_get_delete:
  "compileCache st path \<noteq> None \<Longrightarrow>
   cache_get (cache_delete path key st) path key' = (if key' = key then None else cache_get st path key')"
  by (auto simp: cache_get_def cache_delete_def)

lemma cache_delete_simps [simp]:
  "promises (cache_delete path key p) = promises p"
  "compileCache st path \<noteq> None \<Longrightarrow> compileCache (cache_delete path key st) path \<noteq> None"
  by (auto simp: cache_delete_def split: option.splits)

text \<open>The first stretch of a compile that may use the cache, in an initialised template.\<close>

lemma compile_begin_eligible:
  assumes "templateRender t = Some eng"
    and "useTemplateCache env"
    and "cacheable eng"
    and "getCompileCacheKey eng str (inputPath t) = (u, k)"
    and "uniqueId env @ k \<noteq> []"
    and "\<not> (bypassMarkdown \<and> \<not> needsCompilation eng str)"
  shows "compile_begin env t str bypassMarkdown None st =
     (let st1 = ensureInputPathMap (inputPath t) st;
          key = uniqueId env @ k
      in case (if u then cache_get st (inputPath t) key else None) of
           Some p \<Rightarrow> (Finished (Inr (CachedPromise p)), t, st1\<lparr> cacheHits := cacheHits st1 + 1 \<rparr>)
         | None \<Rightarrow>
             (Compiling (Some (length (promises st))), t,
              (cache_set (inputPath t) key (length (promises st)) st1)
                \<lparr> promises := promises st @ [Pending], cacheMisses := cacheMisses st1 + 1 \<rparr>))"
proof -
  have same: "t\<lparr> templateRender := Some eng \<rparr> = t"
    using assms(1) by simp
  show ?thesis
    using assms
    by (simp add: compile_begin_def getTemplateRender_def same
        getCompileCache_initialised [OF assms(1) assms(4)] Let_def split: option.splits)
qed

lemma compile_end_failure:
  assumes "templateRender t = Some eng"
    and "cacheable eng"
    and "getCompileCacheKey eng str (inputPath t) = (u, k)"
    and "uniqueId env @ k \<noteq> []"
  shows "compile_end env t str res (Inl e) st =
     (Inl (TemplateContentCompileError (''Having trouble compiling template '' @ inputPath t) e),
      cache_delete (inputPath t) (uniqueId env @ k) (ensureInputPathMap (inputPath t) st))"
  using assms
  by (simp add: compile_end_def getCompileCache_initialised [OF assms(1) assms(3)])

lemma cache_get_counters [simp]:
  "cache_get (st\<lparr> promises := ps \<rparr>) = cache_get st"
  "cache_get (st\<lparr> cacheHits := n \<rparr>) = cache_get st"
  "cache_get (st\<lparr> cacheMisses := n \<rparr>) = cache_get st"
  by (simp_all add: cache_get_def fun_eq_iff)

lemma compile_begin_miss:
  assumes "templateRender t = Some eng"
    and "useTemplateCache env"
    and "cacheable eng"
    and "getCompileCacheKey eng str (inputPath t) = (u, k)"
    and "uniqueId env @ k \<noteq> []"
    and "\<not> (bypassMarkdown \<and> \<not> needsCompilation eng str)"
    and "u \<longrightarrow> cache_get st (inputPath t) (uniqueId env @ k) = None"
  shows "\<exists>st1. compile_begin env t str bypassMarkdown None st =
               (Compiling (Some (length (promises st))), t, st1) \<and>
           (\<forall>key. cache_get st1 (inputPath t) key =
                    (if key = uniqueId env @ k then Some (length (promises st))
                     else cache_get st (inputPath t) key)) \<and>
           promises st1 = promises st @ [Pending]"
  using assms(7)
  by (cases u) (simp_all add: compile_begin_eligible [OF assms(1-6)] Let_def cache_get_set)

lemma compile_begin_hit:
  assumes "templateRender t = Some eng"
    and "useTemplateCache env"
    and "cacheable eng"
    and "getCompileCacheKey eng str (inputPath t) = (True, k)"
    and "uniqueId env @ k \<noteq> []"
    and "\<not> (bypassMarkdown \<and> \<not> needsCompilation eng str)"
    and "cache_get st (inputPath t) (uniqueId env @ k) = Some p"
  shows "\<exists>st1. compile_begin env t str bypassMarkdown None st =
               (Finished (Inr (CachedPromise p)), t, st1) \<and>
           (\<forall>key. cache_get st1 (inputPath t) key = cache_get st (inputPath t) key) \<and>
           promises st1 = promises st"
  using assms(7)
  by (simp add: compile_begin_eligible [OF assms(1-6)] Let_def)

section \<open>What the two loops push\<close>

lemma pushAll_result:
  "pushAll p entries st =
     (fst st @ map (\<lambda>mapEntry. \<lparr> r_pass = p, r_entry = mapEntry \<rparr>) entries,
      (snd st)\<lparr> generated := generated (snd st) @ map (Pair p) entries \<rparr>)"
  by (induction entries arbitrary: st) (simp_all add: pushGenerate_def)

section \<open>The order of the template map\<close>

lemma nextEntry_member:
  "remaining \<noteq> [] \<Longrightarrow> \<exists>e. nextEntry remaining = Some e \<and> e \<in> set remaining"
proof (cases "filter (isReady remaining) remaining")
  case Nil
  assume "remaining \<noteq> []"
  then show ?thesis
    using Nil by (cases remaining) (simp_all add: nextEntry_def)
next
  case (Cons e ready)
  have "e \<in> set (e # ready)"
    by simp
  then have "e \<in> set (filter (isReady remaining) remaining)"
    by (simp only: Cons)
  then have "e \<in> set remaining"
    by simp
  then show ?thesis
    using Cons by (simp add: nextEntry_def)
qed

lemma orderEntries_complete:
  "length remaining = n \<Longrightarrow>
     length (orderEntries n remaining) = n \<and> set (orderEntries n remaining) = set remaining"
proof (induction n arbitrary: remaining)
  case 0
  then show ?case by simp
next
  case (Suc n)
  then have "remaining \<noteq> []"
    by auto
  then obtain e where e: "nextEntry remaining = Some e" "e \<in> set remaining"
    using nextEntry_member by blast
  have len: "length (remove1 e remaining) = n"
    using Suc.prems e(2) by (simp add: length_remove1)
  have "insert e (set (remove1 e remaining)) = set remaining"
  proof
    show "insert e (set (remove1 e remaining)) \<subseteq> set remaining"
      using e(2) set_remove1_subset [of e remaining] by auto
    show "set remaining \<subseteq> insert e (set (remove1 e remaining))"
    proof
      fix x
      assume "x \<in> set remaining"
      then show "x \<in> insert e (set (remove1 e remaining))"
        by (cases "x = e") simp_all
    qed
  qed
  then show ?case
    using Suc.IH [OF len] e(1) by simp
qed

lemma topologicalOrder_complete:
  "length (topologicalOrder entries) = length entries \<and>
   set (topologicalOrder entries) = set entries"
  by (simp add: topologicalOrder_def orderEntries_complete)

text \<open>
  Every entry that writes to a collection must precede every other entry that reads it;
  for the all-collection that is every other entry.
\<close>

lemma mustPrecede_writer:
  "te_inputPath a \<noteq> te_inputPath b \<Longrightarrow> c \<in> set (writesTo a) \<Longrightarrow> c \<in> set (te_reads b) \<Longrightarrow>
   mustPrecede a b"
  by (auto simp: mustPrecede_def list_ex_iff)

lemma mustPrecede_reader_of_all:
  "te_inputPath a \<noteq> te_inputPath b \<Longrightarrow> allCollection \<in> set (te_reads b) \<Longrightarrow> mustPrecede a b"
  by (rule mustPrecede_writer [of a b allCollection]) (simp_all add: writesTo_def)

lemma not_mustPrecede_self [simp]: "\<not> mustPrecede e e"
  by (simp add: mustPrecede_def)

text \<open>
  When the dependencies have no cycle (some rank grows along every edge), an entry is
  placed only when no entry still to come must precede it: the order is topological.
\<close>

lemma ready_entry_exists:
  assumes "remaining \<noteq> []"
    and "\<forall>a \<in> set remaining. \<forall>b \<in> set remaining. mustPrecede a b \<longrightarrow>
           rank a < (rank b :: nat)"
  shows "\<exists>e ready. filter (isReady remaining) remaining = e # ready"
proof -
  let ?m = "arg_min_list rank remaining"
  have m: "?m \<in> set remaining"
    using assms(1) by (rule arg_min_list_in)
  have least: "\<And>a. a \<in> set remaining \<Longrightarrow> rank ?m \<le> rank a"
    using assms(1) by (simp add: f_arg_min_list_f)
  have "isReady remaining ?m"
    unfolding isReady_def list_ex_iff
  proof
    assume "\<exists>a \<in> set remaining. mustPrecede a ?m"
    then obtain a where a: "a \<in> set remaining" "mustPrecede a ?m"
      by blast
    then have "rank a < rank ?m"
      using assms(2) m by blast
    then show False
      using least [OF a(1)] by simp
  qed
  then have "filter (isReady remaining) remaining \<noteq> []"
    using m by (auto simp: filter_empty_conv)
  then show ?thesis
    by (cases "filter (isReady remaining) remaining") auto
qed

lemma orderEntries_topological:
  assumes "length remaining = n"
    and "\<forall>a \<in> set remaining. \<forall>b \<in> set remaining. mustPrecede a b \<longrightarrow>
           rank a < (rank b :: nat)"
  shows "sorted_wrt (\<lambda>x y. \<not> mustPrecede y x) (orderEntries n remaining)"
  using assms
proof (induction n arbitrary: remaining)
  case 0
  then show ?case by simp
next
  case (Suc n)
  then have nonempty: "remaining \<noteq> []"
    by auto
  obtain e ready where ready: "filter (isReady remaining) remaining = e # ready"
    using ready_entry_exists [OF nonempty Suc.prems(2)] by blast
  have "e \<in> set (e # ready)"
    by simp
  then have "e \<in> set (filter (isReady remaining) remaining)"
    by (simp only: ready)
  then have e: "e \<in> set remaining" "isReady remaining e"
    by simp_all
  have nxt: "nextEntry remaining = Some e"
    by (simp add: nextEntry_def ready)
  have len: "length (remove1 e remaining) = n"
    using Suc.prems(1) e(1) by (simp add: length_remove1)
  have sub: "set (remove1 e remaining) \<subseteq> set remaining"
    by (rule set_remove1_subset)
  have rest: "sorted_wrt (\<lambda>x y. \<not> mustPrecede y x) (orderEntries n (remove1 e remaining))"
  proof (rule Suc.IH [OF len])
    show "\<forall>a \<in> set (remove1 e remaining). \<forall>b \<in> set (remove1 e remaining).
            mustPrecede a b \<longrightarrow> rank a < rank b"
      using Suc.prems(2) sub by blast
  qed
  have "set (orderEntries n (remove1 e remaining)) = set (remove1 e remaining)"
    using orderEntries_complete [OF len] by simp
  then have "\<forall>y \<in> set (orderEntries n (remove1 e remaining)). \<not> mustPrecede y e"
    using e(2) sub by (auto simp: isReady_def list_ex_iff)
  then show ?case
    using nxt rest by simp
qed

lemma writers_precede_readers:
  assumes "\<forall>a \<in> set entries. \<forall>b \<in> set entries. mustPrecede a b \<longrightarrow>
             rank a < (rank b :: nat)"
    and "i < length (topologicalOrder entries)"
    and "j < length (topologicalOrder entries)"
    and "mustPrecede (topologicalOrder entries ! i) (topologicalOrder entries ! j)"
  shows "i < j"
proof (rule ccontr)
  assume "\<not> i < j"
  moreover have "i \<noteq> j"
    using assms(4) by auto
  ultimately have "j < i"
    by simp
  moreover have "sorted_wrt (\<lambda>x y. \<not> mustPrecede y x) (topologicalOrder entries)"
    unfolding topologicalOrder_def
    by (rule orderEntries_topological [OF refl assms(1)])
  ultimately have "\<not> mustPrecede (topologicalOrder entries ! i) (topologicalOrder entries ! j)"
    using assms(2) by (simp add: sorted_wrt_iff_nth_less)
  then show False
    using assms(4) by simp
qed

text \<open>
  A document without tags that is added after a reader of the all-collection is still
  ordered before it, and the keys-collection of a map without named collections is
  complete from the start.
\<close>

lemma reader_of_all_after_untagged:
  "getTemplateOrder (cache_map (add about_md (add index_md newTemplateMap))) =
     [''__collection:[keys]'', ''./test/_issues/975/about.md'',
      ''./test/_issues/975/index.md'', ''__collection:all'']"
proof -
  have d: "about_md \<noteq> index_md" "index_md \<noteq> about_md"
    by (simp_all add: about_md_def index_md_def)
  have m: "mustPrecede about_md index_md" "\<not> mustPrecede index_md about_md"
    by (simp_all add: mustPrecede_def writesTo_def about_md_def index_md_def allCollection_def
        keysCollection_def)
  have order: "topologicalOrder [index_md, about_md] = [about_md, index_md]"
    by (simp add: topologicalOrder_def numeral_2_eq_2 nextEntry_def isReady_def d m)
  have names: "collectionNames [index_md, about_md] = []"
    by (simp add: collectionNames_def about_md_def index_md_def)
  have added: "tm_map (add about_md (add index_md newTemplateMap)) = [index_md, about_md]"
    by (simp add: add_def newTemplateMap_def)
  have "templateOrder [index_md, about_md] =
     [''__collection:[keys]'', ''./test/_issues/975/about.md'',
      ''./test/_issues/975/index.md'', ''__collection:all'']"
    unfolding templateOrder_def order names
    by (simp add: completeMarkers_def marker_def keysCollection_def allCollection_def
        about_md_def index_md_def)
  then show ?thesis
    by (simp add: getTemplateOrder_def cache_map_def added)
qed


text \<open>Two entries that nothing must precede, and a third that both must precede.\<close>

lemma order_of_two_writers_and_a_reader:
  assumes "\<not> mustPrecede x x" "\<not> mustPrecede y x" "\<not> mustPrecede z x"
    and "\<not> mustPrecede x y" "\<not> mustPrecede y y" "\<not> mustPrecede z y"
    and "mustPrecede x z" "mustPrecede y z"
    and "x \<noteq> y" "x \<noteq> z" "y \<noteq> z"
  shows "topologicalOrder [x, y, z] = [x, y, z]"
    and "topologicalOrder [z, x, y] = [x, y, z]"
  using assms
  by (simp_all add: topologicalOrder_def numeral_3_eq_3 nextEntry_def isReady_def)

section \<open>Relevance of a changed file\<close>

text \<open>
  C9. Whatever the template (even one whose template render is not initialised) and
  whatever the metadata, \<open>isFileRelevantToThisTemplate\<close> returns true when the
  changed-file argument is falsy (undefined, null, false, 0, NaN or the empty string).
\<close>

theorem relevant_when_no_incremental_file:
  "\<not> truthy file \<Longrightarrow> isFileRelevantToThisTemplate t file md = Inr True"
  by (simp add: isFileRelevantToThisTemplate_def)

theorem relevant_when_no_incremental_file_witness:
  "\<not> truthy JNull \<and>
   isFileRelevantToThisTemplate (new_tmpl ''./post.md'' None) JNull \<lparr>isFullTemplate = None\<rparr> = Inr True"
  using relevant_when_no_incremental_file [of JNull "new_tmpl ''./post.md'' None" "\<lparr>isFullTemplate = None\<rparr>"]
  by simp

text \<open>
  C5. For a truthy changed path (in particular a non-empty string) and a template whose
  engine is available. When the engine has extension entries with an
  \<^verbatim>\<open>isIncrementalMatch\<close> callback, the result is true exactly when the callback of one
  of them, called with the input path, the full-template flag, the engine's relevance
  answer and its dependency answer as \<^verbatim>\<open>this\<close> and with the changed path as argument,
  returns true. Otherwise the result is true when the engine says the template depends
  on the changed path, and also when the engine knows no dependencies of the changed
  path and the changed path is not a full template, and false in every other case.
\<close>

theorem relevance_of_changed_path:
  assumes "truthy file" and "templateRender t = Some eng"
  shows "isFileRelevantToThisTemplate t file md =
     Inr (if \<exists>entry \<in> set (extensionEntries eng). isIncrementalMatch entry \<noteq> None
          then \<exists>entry \<in> set (extensionEntries eng). \<exists>callback.
                 isIncrementalMatch entry = Some callback \<and>
                 callback
                   \<lparr> ctx_inputPath = inputPath t,
                     ctx_isFullTemplate = isFullTemplate md,
                     ctx_isFileRelevantToInputPath = isFileRelevantTo eng (inputPath t) file,
                     ctx_doesFileHaveDependencies = hasDependencies eng file \<rparr>
                   file
          else isFileRelevantTo eng (inputPath t) file \<or>
               (\<not> hasDependencies eng file \<and> isFullTemplate md \<noteq> Some True))"
proof -
  let ?ctx = "\<lparr> ctx_inputPath = inputPath t,
                 ctx_isFullTemplate = isFullTemplate md,
                 ctx_isFileRelevantToInputPath = isFileRelevantTo eng (inputPath t) file,
                 ctx_doesFileHaveDependencies = hasDependencies eng file \<rparr>"
  let ?entries = "filter (\<lambda>entry. isIncrementalMatch entry \<noteq> None) (extensionEntries eng)"
  have nonempty: "(?entries \<noteq> []) =
      (\<exists>entry \<in> set (extensionEntries eng). isIncrementalMatch entry \<noteq> None)"
    by (auto simp: filter_empty_conv)
  have ex: "list_ex (entry_matches ?ctx file) ?entries =
      (\<exists>entry \<in> set (extensionEntries eng). \<exists>callback.
         isIncrementalMatch entry = Some callback \<and> callback ?ctx file)"
    by (auto simp: list_ex_iff entry_matches_def split: option.splits)
  have full: "truthy_opt (isFullTemplate md) = (isFullTemplate md = Some True)"
    by (cases "isFullTemplate md") auto
  show ?thesis
    using assms nonempty ex full
    by (simp add: isFileRelevantToThisTemplate_def get_engine_def incremental_ctx_def Let_def)
qed

theorem relevance_of_changed_path_witness:
  "truthy (JStr ''./style.css'') \<and>
   truthy (JStr ''./_includes/base.njk'') \<and>
   truthy (JStr ''./notes.txt'') \<and>
   truthy (JStr ''./another-post.md'') \<and>
   templateRender (new_tmpl ''./index.md'' (Some incremental_engine)) = Some incremental_engine \<and>
   templateRender (new_tmpl ''./index.md'' (Some plain_engine)) = Some plain_engine \<and>
   isFileRelevantToThisTemplate (new_tmpl ''./index.md'' (Some incremental_engine))
     (JStr ''./style.css'') \<lparr>isFullTemplate = Some False\<rparr> = Inr True \<and>
   isFileRelevantToThisTemplate (new_tmpl ''./index.md'' (Some incremental_engine))
     (JStr ''./_includes/base.njk'') \<lparr>isFullTemplate = Some False\<rparr> = Inr False \<and>
   isFileRelevantToThisTemplate (new_tmpl ''./index.md'' (Some plain_engine))
     (JStr ''./_includes/base.njk'') \<lparr>isFullTemplate = Some False\<rparr> = Inr True \<and>
   isFileRelevantToThisTemplate (new_tmpl ''./index.md'' (Some plain_engine))
     (JStr ''./notes.txt'') \<lparr>isFullTemplate = None\<rparr> = Inr True \<and>
   isFileRelevantToThisTemplate (new_tmpl ''./index.md'' (Some plain_engine))
     (JStr ''./another-post.md'') \<lparr>isFullTemplate = Some True\<rparr> = Inr False"
proof -
  let ?ti = "new_tmpl ''./index.md'' (Some incremental_engine)"
  let ?tp = "new_tmpl ''./index.md'' (Some plain_engine)"
  have f: "truthy (JStr ''./style.css'')" "truthy (JStr ''./_includes/base.njk'')"
    "truthy (JStr ''./notes.txt'')" "truthy (JStr ''./another-post.md'')"
    by simp_all
  have ei: "templateRender ?ti = Some incremental_engine"
    and ep: "templateRender ?tp = Some plain_engine"
    by (simp_all add: new_tmpl_def)
  have a: "isFileRelevantToThisTemplate ?ti (JStr ''./style.css'')
             \<lparr>isFullTemplate = Some False\<rparr> = Inr True"
    using relevance_of_changed_path [OF f(1) ei, of "\<lparr>isFullTemplate = Some False\<rparr>"]
    by (simp add: incremental_engine_def plain_engine_def new_tmpl_def)
  have b: "isFileRelevantToThisTemplate ?ti (JStr ''./_includes/base.njk'')
             \<lparr>isFullTemplate = Some False\<rparr> = Inr False"
    using relevance_of_changed_path [OF f(2) ei, of "\<lparr>isFullTemplate = Some False\<rparr>"]
    by (simp add: incremental_engine_def plain_engine_def new_tmpl_def)
  have c: "isFileRelevantToThisTemplate ?tp (JStr ''./_includes/base.njk'')
             \<lparr>isFullTemplate = Some False\<rparr> = Inr True"
    using relevance_of_changed_path [OF f(2) ep, of "\<lparr>isFullTemplate = Some False\<rparr>"]
    by (simp add: plain_engine_def new_tmpl_def)
  have d: "isFileRelevantToThisTemplate ?tp (JStr ''./notes.txt'')
             \<lparr>isFullTemplate = None\<rparr> = Inr True"
    using relevance_of_changed_path [OF f(3) ep, of "\<lparr>isFullTemplate = None\<rparr>"]
    by (simp add: plain_engine_def new_tmpl_def)
  have e: "isFileRelevantToThisTemplate ?tp (JStr ''./another-post.md'')
             \<lparr>isFullTemplate = Some True\<rparr> = Inr False"
    using relevance_of_changed_path [OF f(4) ep, of "\<lparr>isFullTemplate = Some True\<rparr>"]
    by (simp add: plain_engine_def new_tmpl_def)
  show ?thesis
    using f ei ep a b c d e by simp
qed

section \<open>The incremental scheduler\<close>

text \<open>
  C1. In an incremental build (a truthy incremental file, the initial build not
  ignored, every template's engine available) the classification loop ends without an
  error, the rest of the build starts from its result, and it leaves each template of
  the array in the state the case analysis names: unset when the changed file is a
  template and is this template; else unset when the changed file is relevant to the
  template; else optional when the uses graph says the changed file uses the template;
  else disabled. The first test is the one of the code: the changed file has the shape
  of a template and is the input path of this template.
\<close>

theorem classification_of_templates:
  assumes "truthy (incrementalFile w)"
    and "isRunInitialBuild w"
    and "\<forall>r \<in> set templates. templateRender (h r) \<noteq> None"
  shows "\<exists>h1 lookup.
           classifyTemplates w shape templates (h, []) = Inr (h1, lookup) \<and>
           addToTemplateMapIncrementalBuild addLeadingDotSlash shape templates w h =
             Inr (finishIncrementalBuild w
                    (resetTemplates w shape templates
                       (upgradeTemplates (secondOrderRelevantArray addLeadingDotSlash w lookup)
                          templates h1,
                        skippedCount w))) \<and>
           (\<forall>r \<in> set templates.
              renderableOverride (h1 r) =
                (if shape = ShapeTemplate \<and> JStr (inputPath (h r)) = incrementalFile w then Unset
                 else if isFileRelevantToThisTemplate (h r) (incrementalFile w)
                           \<lparr> isFullTemplate = Some (shape = ShapeTemplate) \<rparr> = Inr True
                 then Unset
                 else if isFileUsedBy (config_uses w) (incrementalFile w) (inputPath (h r))
                 then Optional
                 else Disabled))"
proof -
  obtain h1 lookup where
    run: "classifyTemplates w shape templates (h, []) = Inr (h1, lookup)" and
    heap: "\<forall>r. h1 r = (if r \<in> set templates
                         then setRenderableOverride (classification w shape (h r)) (h r)
                         else h r)"
    using classifyTemplates_result [OF assms(3), of w shape "[]"] by blast
  have build: "addToTemplateMapIncrementalBuild addLeadingDotSlash shape templates w h =
             Inr (finishIncrementalBuild w
                    (resetTemplates w shape templates
                       (upgradeTemplates (secondOrderRelevantArray addLeadingDotSlash w lookup)
                          templates h1,
                        skippedCount w)))"
    using run assms(2) by (simp add: addToTemplateMapIncrementalBuild_def)
  have "\<forall>r \<in> set templates. renderableOverride (h1 r) = classification w shape (h r)"
    using heap by simp
  then have "\<forall>r \<in> set templates.
              renderableOverride (h1 r) =
                (if shape = ShapeTemplate \<and> JStr (inputPath (h r)) = incrementalFile w then Unset
                 else if isFileRelevantToThisTemplate (h r) (incrementalFile w)
                           \<lparr> isFullTemplate = Some (shape = ShapeTemplate) \<rparr> = Inr True
                 then Unset
                 else if isFileUsedBy (config_uses w) (incrementalFile w) (inputPath (h r))
                 then Optional
                 else Disabled)"
    by (simp add: classification_def relevantTo_def isIncrementalTemplate_def)
  then show ?thesis
    using run build by blast
qed

theorem classification_of_templates_witness:
  "truthy (incrementalFile (example_writer (JStr ''./another-post.md''))) \<and>
   isRunInitialBuild (example_writer (JStr ''./another-post.md'')) \<and>
   templateRender (example_templates 0) \<noteq> None \<and>
   templateRender (example_templates 1) \<noteq> None \<and>
   templateRender (example_templates 2) \<noteq> None \<and>
   (\<exists>h1 lookup.
      classifyTemplates (example_writer (JStr ''./another-post.md'')) ShapeTemplate [0, 1, 2]
        (example_templates, []) = Inr (h1, lookup) \<and>
      renderableOverride (h1 0) = Disabled \<and>
      renderableOverride (h1 1) = Unset \<and>
      renderableOverride (h1 2) = Optional)"
proof -
  let ?w = "example_writer (JStr ''./another-post.md'')"
  have f: "truthy (incrementalFile ?w)"
    by (simp add: example_writer_def)
  have i: "isRunInitialBuild ?w"
    by (simp add: example_writer_def)
  obtain h1 lookup where
    run: "classifyTemplates ?w ShapeTemplate [0, 1, 2] (example_templates, []) = Inr (h1, lookup)"
    and st: "\<forall>r \<in> set [0, 1, 2].
              renderableOverride (h1 r) =
                (if ShapeTemplate = ShapeTemplate \<and> JStr (inputPath (example_templates r)) = incrementalFile ?w then Unset
                 else if isFileRelevantToThisTemplate (example_templates r) (incrementalFile ?w)
                           \<lparr> isFullTemplate = Some (ShapeTemplate = ShapeTemplate) \<rparr> = Inr True
                 then Unset
                 else if isFileUsedBy (config_uses ?w) (incrementalFile ?w) (inputPath (example_templates r))
                 then Optional
                 else Disabled)"
    using classification_of_templates [OF f i example_initialised, of ShapeTemplate] by blast
  have "renderableOverride (h1 0) = Disabled" "renderableOverride (h1 1) = Unset"
       "renderableOverride (h1 2) = Optional"
    using st by (simp_all add: example_writer_def example_templates_def new_tmpl_def
        example_uses_def plain_engine_def isFileRelevantToThisTemplate_def get_engine_def)
  then show ?thesis using f i example_initialised run by auto
qed

text \<open>
  C2. In an incremental build the input paths recorded as first-order relevant are those
  of the templates the changed file is relevant to (the changed template itself apart).
  Every template whose input path is among what the uses graph returns for that list
  (each entry with its leading dot-slash) is not disabled when the build ends: if the
  classification had disabled it, it is optional, and otherwise its state is the one the
  classification gave it.
\<close>

theorem second_order_upgrade:
  assumes "truthy (incrementalFile w)"
    and "isRunInitialBuild w"
    and "\<forall>r \<in> set templates. templateRender (h r) \<noteq> None"
  shows "\<exists>h1 lookup w' h'.
           classifyTemplates w shape templates (h, []) = Inr (h1, lookup) \<and>
           set lookup = {inputPath (h r) | r. r \<in> set templates \<and> firstOrderRelevant w shape (h r)} \<and>
           addToTemplateMapIncrementalBuild addLeadingDotSlash shape templates w h = Inr (w', h') \<and>
           (\<forall>r \<in> set templates.
              inputPath (h r) \<in> set (secondOrderRelevantArray addLeadingDotSlash w lookup) \<longrightarrow>
                \<not> isRenderableDisabled (h' r) \<and>
                (isRenderableDisabled (h1 r) \<longrightarrow> isRenderableOptional (h' r)) \<and>
                (\<not> isRenderableDisabled (h1 r) \<longrightarrow>
                   renderableOverride (h' r) = renderableOverride (h1 r)))"
proof -
  let ?arr = "\<lambda>lookup. secondOrderRelevantArray addLeadingDotSlash w lookup"
  obtain h1 lookup where
    run: "classifyTemplates w shape templates (h, []) = Inr (h1, lookup)" and
    heap: "\<forall>r. h1 r = (if r \<in> set templates
                         then setRenderableOverride (classification w shape (h r)) (h r)
                         else h r)" and
    keys: "set lookup = set [] \<union>
             {inputPath (h r) | r. r \<in> set templates \<and> firstOrderRelevant w shape (h r)}"
    using classifyTemplates_result [OF assms(3), of w shape "[]"] by blast
  obtain h3 n3 where
    reset: "resetTemplates w shape templates (upgradeTemplates (?arr lookup) templates h1, skippedCount w) = (h3, n3)"
    by (cases "resetTemplates w shape templates (upgradeTemplates (?arr lookup) templates h1, skippedCount w)")
  have build: "addToTemplateMapIncrementalBuild addLeadingDotSlash shape templates w h =
                 Inr (w\<lparr> skippedCount := n3 \<rparr>, h3)"
    using run reset assms(2)
    by (simp add: addToTemplateMapIncrementalBuild_def finishIncrementalBuild_def)
  have final: "\<forall>r \<in> set templates.
                 renderableOverride (h3 r) = renderableOverride (upgradeTemplate (?arr lookup) (h1 r))"
    using resetTemplates_result [OF reset] by (simp add: upgradeTemplates_result)
  have path: "\<forall>r \<in> set templates. inputPath (h1 r) = inputPath (h r)"
    using heap by simp
  have "\<forall>r \<in> set templates.
              inputPath (h r) \<in> set (?arr lookup) \<longrightarrow>
                \<not> isRenderableDisabled (h3 r) \<and>
                (isRenderableDisabled (h1 r) \<longrightarrow> isRenderableOptional (h3 r)) \<and>
                (\<not> isRenderableDisabled (h1 r) \<longrightarrow>
                   renderableOverride (h3 r) = renderableOverride (h1 r))"
    using final path
    by (simp add: upgradeTemplate_override isRenderableDisabled_def isRenderableOptional_def)
  then show ?thesis
    using run keys build by auto
qed

theorem second_order_upgrade_witness:
  "truthy (incrementalFile (example_writer (JStr ''./_includes/base.njk''))) \<and>
   isRunInitialBuild (example_writer (JStr ''./_includes/base.njk'')) \<and>
   templateRender (example_templates 0) \<noteq> None \<and>
   templateRender (example_templates 1) \<noteq> None \<and>
   templateRender (example_templates 2) \<noteq> None \<and>
   (\<exists>w' h'. example_build (JStr ''./_includes/base.njk'') ShapeUndefined = Inr (w', h') \<and>
      isRenderableOptional (h' 0) \<and> isRenderableOptional (h' 1) \<and>
      renderableOverride (h' 2) = Unset)"
proof -
  let ?w = "example_writer (JStr ''./_includes/base.njk'')"
  have f: "truthy (incrementalFile ?w)"
    by (simp add: example_writer_def)
  have i: "isRunInitialBuild ?w"
    by (simp add: example_writer_def)
  obtain h1 lookup w' h' where
    run: "classifyTemplates ?w ShapeUndefined [0, 1, 2] (example_templates, []) = Inr (h1, lookup)"
    and build: "addToTemplateMapIncrementalBuild example_addLeadingDotSlash ShapeUndefined [0, 1, 2]
                  ?w example_templates = Inr (w', h')"
    and up: "\<forall>r \<in> set [0, 1, 2].
              inputPath (example_templates r) \<in>
                set (secondOrderRelevantArray example_addLeadingDotSlash ?w lookup) \<longrightarrow>
                \<not> isRenderableDisabled (h' r) \<and>
                (isRenderableDisabled (h1 r) \<longrightarrow> isRenderableOptional (h' r)) \<and>
                (\<not> isRenderableDisabled (h1 r) \<longrightarrow>
                   renderableOverride (h' r) = renderableOverride (h1 r))"
    using second_order_upgrade [OF f i example_initialised,
        of ShapeUndefined example_addLeadingDotSlash]
    by blast
  have h1: "h1 = example_templates
          (0 := setRenderableOverride Disabled (example_templates 0),
           1 := setRenderableOverride Disabled (example_templates 1),
           2 := setRenderableOverride Unset (example_templates 2))"
    and lookup: "lookup = [''./index.md'']"
    using run example_classified by simp_all
  have arr: "secondOrderRelevantArray example_addLeadingDotSlash ?w lookup =
               [''./post.md'', ''./another-post.md'']"
    by (simp add: lookup secondOrderRelevantArray_def example_writer_def example_uses_def
        example_addLeadingDotSlash_def)
  have "isRenderableOptional (h' 0)" "isRenderableOptional (h' 1)"
    using up unfolding arr h1
    by (simp_all add: example_templates_def new_tmpl_def isRenderableDisabled_def)
  moreover have "renderableOverride (h' 2) = Unset"
  proof -
    obtain h3 n3 where reset: "resetTemplates ?w ShapeUndefined [0, 1, 2]
        (upgradeTemplates [''./post.md'', ''./another-post.md''] [0, 1, 2] h1, skippedCount ?w) = (h3, n3)"
      by (cases "resetTemplates ?w ShapeUndefined [0, 1, 2]
        (upgradeTemplates [''./post.md'', ''./another-post.md''] [0, 1, 2] h1, skippedCount ?w)")
    have "h' = h3"
      using build run reset i arr
      by (simp add: addToTemplateMapIncrementalBuild_def finishIncrementalBuild_def)
    moreover have "renderableOverride (h3 2) =
        renderableOverride (upgradeTemplate [''./post.md'', ''./another-post.md''] (h1 2))"
      using resetTemplates_result [OF reset] by (simp add: upgradeTemplates_result)
    ultimately show ?thesis
      by (simp add: h1 upgradeTemplate_override example_templates_def new_tmpl_def)
  qed
  ultimately show ?thesis
    using f i example_initialised build by (auto simp: example_build_def)
qed

text \<open>
  C4, amended. The last loop treats a template that is not the changed file by its state
  alone. In the render state its data and render caches are reset and dry run is
  switched off; in the optional or the disabled state only its data cache is reset and
  dry run is switched on. Nothing else of the template changes: the read caches and the
  override stay. The skipped count goes up once for every such template of the array
  in the optional or the disabled state, not for the disabled ones alone.
\<close>

theorem cache_reset_by_final_state:
  assumes "resetTemplates w shape templates (h, n) = (h3, n3)"
  shows "(\<forall>r \<in> set templates.
            \<not> isIncrementalTemplate w shape (h r) \<longrightarrow>
              h3 r =
                (if \<not> isRenderableDisabled (h r) \<and> \<not> isRenderableOptional (h r)
                 then (h r)\<lparr> dryRunViaIncremental := False, dataCache := None, renderCache := None \<rparr>
                 else (h r)\<lparr> dryRunViaIncremental := True, dataCache := None \<rparr>)) \<and>
         n3 = n + length (filter (\<lambda>r. \<not> isIncrementalTemplate w shape (h r) \<and>
                                        (isRenderableDisabled (h r) \<or> isRenderableOptional (h r)))
                            templates)"
proof -
  have heap: "\<forall>r. h3 r = (if r \<in> set templates then fst (resetTemplate w shape (h r)) else h r)"
    and count: "n3 = n + length (filter (\<lambda>r. snd (resetTemplate w shape (h r))) templates)"
    using resetTemplates_result [OF assms] by blast+
  have skip: "\<And>t. snd (resetTemplate w shape t) =
      (\<not> isIncrementalTemplate w shape t \<and> (isRenderableDisabled t \<or> isRenderableOptional t))"
    by (auto simp: resetTemplate_def)
  have upd: "\<And>t. \<not> isIncrementalTemplate w shape t \<Longrightarrow>
      fst (resetTemplate w shape t) =
        (if \<not> isRenderableDisabled t \<and> \<not> isRenderableOptional t
         then t\<lparr> dryRunViaIncremental := False, dataCache := None, renderCache := None \<rparr>
         else t\<lparr> dryRunViaIncremental := True, dataCache := None \<rparr>)"
    by (simp add: resetTemplate_def setDryRunViaIncremental_def Template_resetCaches_def
        resetCaches_def getResetTypes_def Let_def)
  show ?thesis
    using heap count upd by (simp add: skip)
qed

theorem cache_reset_by_final_state_witness:
  "resetTemplates (example_writer (JStr ''./another-post.md'')) ShapeTemplate [0, 1, 2]
     (example_classified_heap, 0) = (fst example_reset, snd example_reset) \<and>
   fst example_reset 0 =
     (example_classified_heap 0)\<lparr> dryRunViaIncremental := True, dataCache := None \<rparr> \<and>
   fst example_reset 2 =
     (example_classified_heap 2)\<lparr> dryRunViaIncremental := True, dataCache := None \<rparr> \<and>
   snd example_reset = 2"
proof -
  have run: "resetTemplates (example_writer (JStr ''./another-post.md'')) ShapeTemplate [0, 1, 2]
     (example_classified_heap, 0) = (fst example_reset, snd example_reset)"
    by (simp add: example_reset_def)
  show ?thesis
    using run cache_reset_by_final_state [OF run]
    by (simp add: isIncrementalTemplate_def isRenderableDisabled_def isRenderableOptional_def
        example_writer_def example_classified_heap_def example_templates_def new_tmpl_def
        setRenderableOverride_def)
qed

text \<open>
  C4 as stated fails. With \<^verbatim>\<open>./another-post.md\<close> changed, \<^verbatim>\<open>./post.md\<close> ends disabled
  and \<^verbatim>\<open>./index.md\<close> optional: one template is in the skip state and the skipped count
  is two.
\<close>

theorem skipped_count_counterexample:
  "\<not> isl (example_build (JStr ''./another-post.md'') ShapeTemplate) \<and>
   skippedCount (fst (projr (example_build (JStr ''./another-post.md'') ShapeTemplate))) = 2 \<and>
   countInState Disabled [0, 1, 2]
     (snd (projr (example_build (JStr ''./another-post.md'') ShapeTemplate))) = 1 \<and>
   countInState Optional [0, 1, 2]
     (snd (projr (example_build (JStr ''./another-post.md'') ShapeTemplate))) = 1"
proof -
  obtain h3 n3 where reset:
    "resetTemplates (example_writer (JStr ''./another-post.md'')) ShapeTemplate [0, 1, 2]
     (example_templates
        (0 := setRenderableOverride Disabled (example_templates 0),
         1 := setRenderableOverride Unset (example_templates 1),
         2 := setRenderableOverride Optional (example_templates 2)), 0) = (h3, n3)"
    by (rule prod.exhaust)
  have build: "example_build (JStr ''./another-post.md'') ShapeTemplate =
      Inr ((example_writer (JStr ''./another-post.md''))\<lparr> skippedCount := n3 \<rparr>, h3)"
    unfolding example_build_template reset by (simp add: finishIncrementalBuild_def)
  show ?thesis
    unfolding build using example_reset_template [OF reset]
    by (simp add: countInState_def)
qed

section \<open>Reading content that is not there\<close>

text \<open>
  C10, amended. When the input content of a template settles to a value that is falsy
  and is not the empty string (undefined, null, false, 0 or NaN), \<^verbatim>\<open>read()\<close> resolves to
  the object with empty data, empty content and empty excerpt, stores it as the reading
  promise, and the front-matter parser is not called. Every other content, that is
  every truthy value and the empty string, is handed to the parser.
\<close>

theorem read_of_falsy_content:
  assumes "readingPromise t = None"
    and "awaitInputContent env t st = (Inr content, t1, st1)"
  shows "(\<not> truthy content \<and> content \<noteq> JStr [] \<longrightarrow>
            read env t st =
              (Inr emptyFrontMatter, t1\<lparr> readingPromise := Some (Inr emptyFrontMatter) \<rparr>, st1) \<and>
            matterCalls st1 = matterCalls st) \<and>
         (truthy content \<or> content = JStr [] \<longrightarrow>
            matterCalls (snd (snd (read env t st))) = matterCalls st @ [content])"
proof -
  have calls: "matterCalls st1 = matterCalls st"
    using assms(2) by (rule awaitInputContent_matterCalls)
  show ?thesis
    using assms calls
    by (auto simp: read_def parseContent_def Let_def split: sum.splits)
qed

theorem read_of_falsy_content_witness:
  "readingPromise (new_tmpl ''./none.md'' None) = None \<and>
   awaitInputContent (example_env ''0.42'') (new_tmpl ''./none.md'' None) example_state =
     (Inr JUndefined,
      (new_tmpl ''./none.md'' (Some plain_engine))\<lparr> inputContent := ContentPromise (Inr JUndefined) \<rparr>,
      example_state) \<and>
   read (example_env ''0.42'') (new_tmpl ''./none.md'' None) example_state =
     (Inr emptyFrontMatter,
      (new_tmpl ''./none.md'' (Some plain_engine))
        \<lparr> inputContent := ContentPromise (Inr JUndefined),
          readingPromise := Some (Inr emptyFrontMatter) \<rparr>,
      example_state) \<and>
   matterCalls example_state = []"
proof -
  have a: "readingPromise (new_tmpl ''./none.md'' None) = None"
    by (simp add: new_tmpl_def)
  have b: "awaitInputContent (example_env ''0.42'') (new_tmpl ''./none.md'' None) example_state =
     (Inr JUndefined,
      (new_tmpl ''./none.md'' (Some plain_engine))\<lparr> inputContent := ContentPromise (Inr JUndefined) \<rparr>,
      example_state)"
    by (simp add: awaitInputContent_def getInputContent_def getTemplateRender_def new_tmpl_def
        example_env_def plain_engine_def)
  show ?thesis
    using a b read_of_falsy_content [OF a b]
    by (simp add: example_state_def)
qed

text \<open>
  C10 as stated fails. A virtual template whose content is a Buffer has content that is
  neither a non-empty string nor the empty string; it is truthy, so it is handed to the
  parser, and \<^verbatim>\<open>read()\<close> resolves to what the parser returns.
\<close>

theorem read_of_object_content_counterexample:
  "fst (awaitInputContent (example_env ''0.42'') (new_tmpl ''./buffer.md'' None) example_state) = Inr JObj \<and>
   matterCalls (snd (snd (read (example_env ''0.42'') (new_tmpl ''./buffer.md'' None) example_state))) = [JObj] \<and>
   fst (read (example_env ''0.42'') (new_tmpl ''./buffer.md'' None) example_state) \<noteq> Inr emptyFrontMatter"
  by (simp add: read_def parseContent_def awaitInputContent_def getInputContent_def
      getTemplateRender_def new_tmpl_def example_env_def plain_engine_def example_state_def
      example_matter_def applyExcerpt_def emptyFrontMatter_def Let_def)

section \<open>The compiled-template cache\<close>

text \<open>
  C6. Take a compile that may use the cache (the template cache is on, the engine is
  cacheable, the key is not empty, the engine allows the cache, and the call does not
  take the shortcut for strings that need no compilation) whose key is not cached.
  Its first stretch, which ends where the engine starts compiling, stores a new pending
  promise under the key. A second call for the same key that starts before the first
  one has finished gets that same promise, still pending. When the engine's compile
  fails, in whatever state the cache is by then, the call throws the wrapped compile
  error and the key is gone from the cache, so that the next call for the key starts a
  compile of its own.
\<close>

theorem placeholder_cached_and_removed_on_failure:
  assumes "templateRender t = Some eng"
    and "useTemplateCache env"
    and "cacheable eng"
    and "getCompileCacheKey eng str (inputPath t) = (True, k)"
    and "uniqueId env @ k \<noteq> []"
    and "\<not> (bypassMarkdown \<and> \<not> needsCompilation eng str)"
    and "cache_get st (inputPath t) (uniqueId env @ k) = None"
  shows "\<exists>st1.
           compile_begin env t str bypassMarkdown None st =
             (Compiling (Some (length (promises st))), t, st1) \<and>
           cache_get st1 (inputPath t) (uniqueId env @ k) = Some (length (promises st)) \<and>
           promises st1 ! length (promises st) = Pending \<and>
           (\<exists>st2. compile_begin env t str bypassMarkdown None st1 =
                    (Finished (Inr (CachedPromise (length (promises st)))), t, st2) \<and>
                  promises st2 ! length (promises st) = Pending) \<and>
           (\<forall>st' res e. \<exists>st3.
              compile_end env t str res (Inl e) st' =
                (Inl (TemplateContentCompileError
                        (''Having trouble compiling template '' @ inputPath t) e), st3) \<and>
              cache_get st3 (inputPath t) (uniqueId env @ k) = None \<and>
              (\<exists>st4. compile_begin env t str bypassMarkdown None st3 =
                       (Compiling (Some (length (promises st3))), t, st4)))"
proof -
  let ?key = "uniqueId env @ k"
  let ?p = "length (promises st)"
  obtain st1 where
    start: "compile_begin env t str bypassMarkdown None st = (Compiling (Some ?p), t, st1)" and
    cached: "\<forall>key. cache_get st1 (inputPath t) key =
                    (if key = ?key then Some ?p else cache_get st (inputPath t) key)" and
    pending: "promises st1 = promises st @ [Pending]"
    using compile_begin_miss [OF assms(1-6), of st] assms(7) by blast
  have c1: "cache_get st1 (inputPath t) ?key = Some ?p"
    using cached by simp
  obtain st2 where
    again: "compile_begin env t str bypassMarkdown None st1 =
              (Finished (Inr (CachedPromise ?p)), t, st2)" and
    same: "promises st2 = promises st1"
    using compile_begin_hit [OF assms(1-6) c1] by blast
  have failure: "\<exists>st3.
          compile_end env t str res (Inl e) st' =
            (Inl (TemplateContentCompileError
                    (''Having trouble compiling template '' @ inputPath t) e), st3) \<and>
          cache_get st3 (inputPath t) ?key = None \<and>
          (\<exists>st4. compile_begin env t str bypassMarkdown None st3 =
                   (Compiling (Some (length (promises st3))), t, st4))" for st' res e
  proof -
    let ?st3 = "cache_delete (inputPath t) ?key (ensureInputPathMap (inputPath t) st')"
    have gone: "cache_get ?st3 (inputPath t) ?key = None"
      by (simp add: cache_get_delete)
    obtain st4 where "compile_begin env t str bypassMarkdown None ?st3 =
        (Compiling (Some (length (promises ?st3))), t, st4)"
      using compile_begin_miss [OF assms(1-6), of ?st3] gone by blast
    then show ?thesis
      using compile_end_failure [OF assms(1) assms(3) assms(4) assms(5)] gone by blast
  qed
  show ?thesis
    using start c1 pending again same failure by (auto simp: nth_append)
qed

theorem placeholder_cached_and_removed_on_failure_witness:
  "templateRender (new_tmpl ''./index.md'' (Some plain_engine)) = Some plain_engine \<and>
   useTemplateCache (example_env ''0.42'') \<and>
   cacheable plain_engine \<and>
   getCompileCacheKey plain_engine ''# Hello'' (inputPath (new_tmpl ''./index.md'' (Some plain_engine))) =
     (True, ''./index.md# Hello'') \<and>
   uniqueId (example_env ''0.42'') @ ''./index.md# Hello'' \<noteq> [] \<and>
   \<not> (False \<and> \<not> needsCompilation plain_engine ''# Hello'') \<and>
   cache_get example_compile_state (inputPath (new_tmpl ''./index.md'' (Some plain_engine)))
     (uniqueId (example_env ''0.42'') @ ''./index.md# Hello'') = None \<and>
   fst (compile_begin (example_env ''0.42'') (new_tmpl ''./index.md'' (Some plain_engine))
          ''# Hello'' False None example_compile_state) = Compiling (Some 0)"
proof -
  let ?t = "new_tmpl ''./index.md'' (Some plain_engine)"
  let ?env = "example_env ''0.42''"
  have a: "templateRender ?t = Some plain_engine"
    and b: "useTemplateCache ?env"
    and c: "cacheable plain_engine"
    and d: "getCompileCacheKey plain_engine ''# Hello'' (inputPath ?t) = (True, ''./index.md# Hello'')"
    and e: "uniqueId ?env @ ''./index.md# Hello'' \<noteq> []"
    and f: "\<not> (False \<and> \<not> needsCompilation plain_engine ''# Hello'')"
    and g: "cache_get example_compile_state (inputPath ?t) (uniqueId ?env @ ''./index.md# Hello'') = None"
    by (simp_all add: new_tmpl_def example_env_def plain_engine_def cache_get_def
        example_compile_state_def)
  have "fst (compile_begin ?env ?t ''# Hello'' False None example_compile_state) =
          Compiling (Some (length (promises example_compile_state)))"
    using placeholder_cached_and_removed_on_failure [OF a b c d e f g] by auto
  then have "fst (compile_begin ?env ?t ''# Hello'' False None example_compile_state) =
          Compiling (Some 0)"
    by (simp add: example_compile_state_def)
  then show ?thesis
    using a b c d e f g by blast
qed

text \<open>
  C7. The key under which a compiled template is cached is the unique id of the
  configuration instance followed by the engine's key. Under one configuration, once a
  first compile has stored and resolved its promise, a second compile of the same
  string is a cache hit on that same promise, which holds the compiled function. Under
  another configuration instance, whose unique id differs, the key for the same string
  differs, the compile is a miss, and the cache holds two entries with two different
  promises.
\<close>

theorem cache_key_tied_to_configuration:
  assumes "templateRender t = Some eng"
    and "useTemplateCache env"
    and "cacheable eng"
    and "getCompileCacheKey eng str (inputPath t) = (True, k)"
    and "uniqueId env @ k \<noteq> []"
    and "\<not> (bypassMarkdown \<and> \<not> needsCompilation eng str)"
    and "cache_get st (inputPath t) (uniqueId env @ k) = None"
    and "useTemplateCache env'"
    and "uniqueId env' \<noteq> uniqueId env"
    and "uniqueId env' @ k \<noteq> []"
    and "cache_get st (inputPath t) (uniqueId env' @ k) = None"
  shows "\<exists>st1 st2 st3 st4.
           compile_begin env t str bypassMarkdown None st =
             (Compiling (Some (length (promises st))), t, st1) \<and>
           compile_end env t str (Some (length (promises st))) (Inr fn) st1 =
             (Inr (Function fn), st2) \<and>
           compile_begin env t str bypassMarkdown None st2 =
             (Finished (Inr (CachedPromise (length (promises st)))), t, st3) \<and>
           promises st3 ! length (promises st) = Resolved fn \<and>
           uniqueId env' @ k \<noteq> uniqueId env @ k \<and>
           compile_begin env' t str bypassMarkdown None st2 =
             (Compiling (Some (Suc (length (promises st)))), t, st4) \<and>
           cache_get st4 (inputPath t) (uniqueId env @ k) = Some (length (promises st)) \<and>
           cache_get st4 (inputPath t) (uniqueId env' @ k) = Some (Suc (length (promises st)))"
proof -
  let ?key = "uniqueId env @ k"
  let ?key' = "uniqueId env' @ k"
  let ?p = "length (promises st)"
  obtain st1 where
    start: "compile_begin env t str bypassMarkdown None st = (Compiling (Some ?p), t, st1)" and
    cached: "\<forall>key. cache_get st1 (inputPath t) key =
                    (if key = ?key then Some ?p else cache_get st (inputPath t) key)" and
    pending: "promises st1 = promises st @ [Pending]"
    using compile_begin_miss [OF assms(1-6), of st] assms(7) by blast
  let ?st2 = "st1\<lparr> promises := (promises st1)[?p := Resolved fn] \<rparr>"
  have finish: "compile_end env t str (Some ?p) (Inr fn) st1 = (Inr (Function fn), ?st2)"
    using assms(2) by (simp add: compile_end_def)
  have resolved: "promises ?st2 = promises st @ [Resolved fn]"
    by (simp add: pending)
  have c2: "cache_get ?st2 (inputPath t) ?key = Some ?p"
    using cached by simp
  obtain st3 where
    hit: "compile_begin env t str bypassMarkdown None ?st2 =
              (Finished (Inr (CachedPromise ?p)), t, st3)" and
    same: "promises st3 = promises ?st2"
    using compile_begin_hit [OF assms(1-6) c2] by blast
  have keys: "?key' \<noteq> ?key"
    using assms(9) by simp
  have c2': "cache_get ?st2 (inputPath t) ?key' = None"
    using cached keys assms(11) by simp
  obtain st4 where
    other: "compile_begin env' t str bypassMarkdown None ?st2 =
              (Compiling (Some (length (promises ?st2))), t, st4)" and
    cached': "\<forall>key. cache_get st4 (inputPath t) key =
                    (if key = ?key' then Some (length (promises ?st2))
                     else cache_get ?st2 (inputPath t) key)"
    using compile_begin_miss [OF assms(1) assms(8) assms(3) assms(4) assms(10) assms(6), of ?st2] c2'
    by blast
  have "cache_get st4 (inputPath t) ?key = Some ?p"
       "cache_get st4 (inputPath t) ?key' = Some (Suc ?p)"
    using cached' c2 keys resolved by simp_all
  moreover have "promises st3 ! ?p = Resolved fn"
    using same resolved by (simp add: nth_append)
  moreover have "compile_begin env' t str bypassMarkdown None ?st2 =
              (Compiling (Some (Suc ?p)), t, st4)"
    using other resolved by simp
  ultimately show ?thesis
    using start finish hit keys by blast
qed

theorem cache_key_tied_to_configuration_witness:
  "templateRender (new_tmpl ''./index.md'' (Some plain_engine)) = Some plain_engine \<and>
   useTemplateCache (example_env ''0.42'') \<and>
   cacheable plain_engine \<and>
   getCompileCacheKey plain_engine ''# Hello'' (inputPath (new_tmpl ''./index.md'' (Some plain_engine))) =
     (True, ''./index.md# Hello'') \<and>
   uniqueId (example_env ''0.42'') @ ''./index.md# Hello'' \<noteq> [] \<and>
   \<not> (False \<and> \<not> needsCompilation plain_engine ''# Hello'') \<and>
   cache_get example_compile_state (inputPath (new_tmpl ''./index.md'' (Some plain_engine)))
     (uniqueId (example_env ''0.42'') @ ''./index.md# Hello'') = None \<and>
   useTemplateCache (example_env ''0.77'') \<and>
   uniqueId (example_env ''0.77'') \<noteq> uniqueId (example_env ''0.42'') \<and>
   uniqueId (example_env ''0.77'') @ ''./index.md# Hello'' \<noteq> [] \<and>
   cache_get example_compile_state (inputPath (new_tmpl ''./index.md'' (Some plain_engine)))
     (uniqueId (example_env ''0.77'') @ ''./index.md# Hello'') = None \<and>
   uniqueId (example_env ''0.77'') @ ''./index.md# Hello'' \<noteq>
     uniqueId (example_env ''0.42'') @ ''./index.md# Hello''"
proof -
  let ?t = "new_tmpl ''./index.md'' (Some plain_engine)"
  let ?env = "example_env ''0.42''"
  let ?env' = "example_env ''0.77''"
  have a: "templateRender ?t = Some plain_engine"
    and b: "useTemplateCache ?env"
    and c: "cacheable plain_engine"
    and d: "getCompileCacheKey plain_engine ''# Hello'' (inputPath ?t) = (True, ''./index.md# Hello'')"
    and e: "uniqueId ?env @ ''./index.md# Hello'' \<noteq> []"
    and f: "\<not> (False \<and> \<not> needsCompilation plain_engine ''# Hello'')"
    and g: "cache_get example_compile_state (inputPath ?t) (uniqueId ?env @ ''./index.md# Hello'') = None"
    and h: "useTemplateCache ?env'"
    and i: "uniqueId ?env' \<noteq> uniqueId ?env"
    and j: "uniqueId ?env' @ ''./index.md# Hello'' \<noteq> []"
    and k: "cache_get example_compile_state (inputPath ?t) (uniqueId ?env' @ ''./index.md# Hello'') = None"
    by (simp_all add: new_tmpl_def example_env_def plain_engine_def cache_get_def
        example_compile_state_def)
  have "uniqueId ?env' @ ''./index.md# Hello'' \<noteq> uniqueId ?env @ ''./index.md# Hello''"
    using cache_key_tied_to_configuration [OF a b c d e f g h i j k] by blast
  then show ?thesis
    using a b c d e f g h i j k by blast
qed

section \<open>The second render pass\<close>

text \<open>
  Whatever the map, \<^verbatim>\<open>generateTemplates\<close> returns one promise per map entry, each of the
  main pass, and calls \<^verbatim>\<open>_generateTemplate\<close> once per entry. The second loop walks
  \<^verbatim>\<open>usedTemplateContentTooEarlyMap\<close> while it is still empty, since the handlers that
  fill it can only run after \<^verbatim>\<open>generateTemplates\<close> has returned.
\<close>

lemma second_pass_never_scheduled:
  "generateTemplates getMap =
     (map (\<lambda>mapEntry. \<lparr> r_pass = MainPass, r_entry = mapEntry \<rparr>) getMap,
      \<lparr> usedTemplateContentTooEarlyMap = [], generated = map (Pair MainPass) getMap \<rparr>)"
  by (simp add: generateTemplates_def pushAll_result)

text \<open>
  C8. The claim asks that every entry whose render fails with the premature
  template-content condition is rendered once more after the main pass. The code does
  not do it. Take a map with one entry whose render fails in the main pass because it
  used template content too early. \<^verbatim>\<open>generateTemplates\<close> returns the one promise of the
  main pass; the entry is rendered once; its promise is fulfilled with \<^verbatim>\<open>undefined\<close>;
  and the entry is in \<^verbatim>\<open>usedTemplateContentTooEarlyMap\<close> when nothing reads that array
  any more.
\<close>

theorem premature_entry_rendered_once:
  "generateTemplates [example_entry] =
     ([\<lparr> r_pass = MainPass, r_entry = example_entry \<rparr>],
      \<lparr> usedTemplateContentTooEarlyMap = [], generated = [(MainPass, example_entry)] \<rparr>) \<and>
   settleAll example_generateMapEntry example_isPremature
       (fst (generateTemplates [example_entry])) (snd (generateTemplates [example_entry])) =
     ([Fulfilled None],
      \<lparr> usedTemplateContentTooEarlyMap = [example_entry],
        generated = [(MainPass, example_entry)] \<rparr>)"
  by (simp add: generateTemplates_def pushGenerate_def runReaction_def
      example_generateMapEntry_def example_isPremature_def)

section \<open>The order of three documents\<close>

text \<open>
  C3. Take three documents with different input paths: two posts that declare the same
  named collection and read nothing, and an index that declares nothing and reads that
  collection or the all-collection (the index of the acceptance test reads both). With
  the posts added first, the order after \<^verbatim>\<open>cache()\<close> is: the two posts in the order they
  were added, the marker of their collection, the marker of the keys-collection, the
  index, the marker of the all-collection. With the two posts added the other way
  round they change places and the rest stays; so it is too when the index is added
  first, as the second acceptance test does.
\<close>

theorem template_order_of_three_documents:
  assumes "c \<noteq> allCollection"
    and "te_declares post = [c]" and "te_reads post = []"
    and "te_declares another = [c]" and "te_reads another = []"
    and "te_declares index = []"
    and "c \<in> set (te_reads index) \<or> allCollection \<in> set (te_reads index)"
    and "te_inputPath post \<noteq> te_inputPath another"
    and "te_inputPath post \<noteq> te_inputPath index"
    and "te_inputPath another \<noteq> te_inputPath index"
  shows "getTemplateOrder (cache_map (add index (add another (add post newTemplateMap)))) =
           [te_inputPath post, te_inputPath another, marker c, marker keysCollection,
            te_inputPath index, marker allCollection] \<and>
         getTemplateOrder (cache_map (add index (add post (add another newTemplateMap)))) =
           [te_inputPath another, te_inputPath post, marker c, marker keysCollection,
            te_inputPath index, marker allCollection] \<and>
         getTemplateOrder (cache_map (add post (add another (add index newTemplateMap)))) =
           [te_inputPath another, te_inputPath post, marker c, marker keysCollection,
            te_inputPath index, marker allCollection]"
proof -
  have free: "\<not> mustPrecede e post" "\<not> mustPrecede e another" for e
    using assms(3,5) by (simp_all add: mustPrecede_def)
  have edges: "mustPrecede post index" "mustPrecede another index"
    using assms(2,4,7,9,10) by (auto simp: mustPrecede_def writesTo_def list_ex_iff)
  have self: "\<not> mustPrecede index index"
    by simp
  have d: "post \<noteq> another" "another \<noteq> post" "post \<noteq> index" "another \<noteq> index"
    using assms(8,9,10) by auto
  have o1: "topologicalOrder [post, another, index] = [post, another, index]"
    and o3: "topologicalOrder [index, post, another] = [post, another, index]"
    using order_of_two_writers_and_a_reader [of post another index] free edges d by simp_all
  have o2: "topologicalOrder [another, post, index] = [another, post, index]"
    and o4: "topologicalOrder [index, another, post] = [another, post, index]"
    using order_of_two_writers_and_a_reader [of another post index] free edges d by simp_all
  have names:
    "collectionNames [post, another, index] = [c]"
    "collectionNames [another, post, index] = [c]"
    "collectionNames [index, another, post] = [c]"
    using assms(2,4,6) by (simp_all add: collectionNames_def)
  have markers: "marker allCollection \<noteq> marker c" "marker allCollection \<noteq> marker keysCollection"
    using assms(1) by (simp_all add: marker_def allCollection_def keysCollection_def)
  have m: "completeMarkers [c] [x, y, index] @ withMarkers [c] [x, y, index] =
             [te_inputPath x, te_inputPath y, marker c, marker keysCollection,
              te_inputPath index, marker allCollection]"
    if "te_declares x = [c]" "te_declares y = [c]" for x y
    using that assms(6) markers
    by (simp add: completeMarkers_def writtenLater_def)
  have added:
    "tm_map (add index (add another (add post newTemplateMap))) = [post, another, index]"
    "tm_map (add index (add post (add another newTemplateMap))) = [another, post, index]"
    "tm_map (add post (add another (add index newTemplateMap))) = [index, another, post]"
    by (simp_all add: add_def newTemplateMap_def)
  have order: "getTemplateOrder (cache_map tm) = templateOrder (tm_map tm)" for tm
    by (simp add: getTemplateOrder_def cache_map_def)
  show ?thesis
    unfolding order added templateOrder_def Let_def names o1 o2 o4
    using m [OF assms(2) assms(4)] m [OF assms(4) assms(2)] by simp
qed

theorem template_order_of_three_documents_witness:
  "''post'' \<noteq> allCollection \<and>
   te_declares post_md = [''post''] \<and> te_reads post_md = [] \<and>
   te_declares another_post_md = [''post''] \<and> te_reads another_post_md = [] \<and>
   te_declares index_md = [] \<and>
   (''post'' \<in> set (te_reads index_md) \<or> allCollection \<in> set (te_reads index_md)) \<and>
   te_inputPath post_md \<noteq> te_inputPath another_post_md \<and>
   te_inputPath post_md \<noteq> te_inputPath index_md \<and>
   te_inputPath another_post_md \<noteq> te_inputPath index_md \<and>
   getTemplateOrder
     (cache_map (add index_md (add another_post_md (add post_md newTemplateMap)))) =
     [''./test/_issues/975/post.md'', ''./test/_issues/975/another-post.md'',
      ''__collection:post'', ''__collection:[keys]'',
      ''./test/_issues/975/index.md'', ''__collection:all''] \<and>
   getTemplateOrder
     (cache_map (add index_md (add post_md (add another_post_md newTemplateMap)))) =
     [''./test/_issues/975/another-post.md'', ''./test/_issues/975/post.md'',
      ''__collection:post'', ''__collection:[keys]'',
      ''./test/_issues/975/index.md'', ''__collection:all''] \<and>
   getTemplateOrder
     (cache_map (add post_md (add another_post_md (add index_md newTemplateMap)))) =
     [''./test/_issues/975/another-post.md'', ''./test/_issues/975/post.md'',
      ''__collection:post'', ''__collection:[keys]'',
      ''./test/_issues/975/index.md'', ''__collection:all'']"
proof -
  have h: "''post'' \<noteq> allCollection"
    "te_declares post_md = [''post'']" "te_reads post_md = []"
    "te_declares another_post_md = [''post'']" "te_reads another_post_md = []"
    "te_declares index_md = []"
    "''post'' \<in> set (te_reads index_md) \<or> allCollection \<in> set (te_reads index_md)"
    "te_inputPath post_md \<noteq> te_inputPath another_post_md"
    "te_inputPath post_md \<noteq> te_inputPath index_md"
    "te_inputPath another_post_md \<noteq> te_inputPath index_md"
    by (simp_all add: post_md_def another_post_md_def index_md_def allCollection_def)
  have paths: "te_inputPath post_md = ''./test/_issues/975/post.md''"
    "te_inputPath another_post_md = ''./test/_issues/975/another-post.md''"
    "te_inputPath index_md = ''./test/_issues/975/index.md''"
    "marker ''post'' = ''__collection:post''"
    "marker keysCollection = ''__collection:[keys]''"
    "marker allCollection = ''__collection:all''"
    by (simp_all add: post_md_def another_post_md_def index_md_def marker_def
        keysCollection_def allCollection_def)
  show ?thesis
    using h template_order_of_three_documents
      [OF h(1) h(2) h(3) h(4) h(5) h(6) h(7) h(8) h(9) h(10)]
    unfolding paths by simp
qed

end
